theory Spec2Isabelle
  imports Complex_Main
begin

section \<open>Dense arrays\<close>

text \<open>
  The notebook \<^verbatim>\<open>7b_sapt0_ao.ipynb\<close> works on NumPy arrays of rank one, two and
  four. An array is modelled by its index function; its extents are passed next to it,
  and every contraction sums over exactly the extent of the contracted axis. Entries are
  exact reals: rounding of \<^verbatim>\<open>float64\<close> is not part of the model, so the identities
  below are the ones the notebook can only meet up to floating tolerance.
\<close>

type_synonym vec = "nat \<Rightarrow> real"
type_synonym mat = "nat \<Rightarrow> nat \<Rightarrow> real"
type_synonym 'a arr4 = "nat \<Rightarrow> nat \<Rightarrow> nat \<Rightarrow> nat \<Rightarrow> 'a"
type_synonym tensor4 = "real arr4"

text \<open>\<^verbatim>\<open>A.T\<close> on a rank-two array.\<close>

definition tr :: "mat \<Rightarrow> mat" where
  "tr A = (\<lambda>i j. A j i)"

text \<open>\<^verbatim>\<open>np.dot(A, B)\<close> on rank-two arrays; \<open>m\<close> is the shared extent
  (columns of \<open>A\<close>, rows of \<open>B\<close>).\<close>

definition np_dot :: "nat \<Rightarrow> mat \<Rightarrow> mat \<Rightarrow> mat" where
  "np_dot m A B = (\<lambda>i j. \<Sum>k<m. A i k * B k j)"

text \<open>\<^verbatim>\<open>np.vdot(A, B)\<close> flattens both arguments in row-major order and takes the dot
  product of the two vectors; \<open>r\<close> and \<open>c\<close> are the extents of the two axes.\<close>

definition np_vdot :: "nat \<Rightarrow> nat \<Rightarrow> mat \<Rightarrow> mat \<Rightarrow> real" where
  "np_vdot r c A B = (\<Sum>i<r * c. A (i div c) (i mod c) * B (i div c) (i mod c))"

text \<open>Element-wise \<^verbatim>\<open>A + B\<close>, \<^verbatim>\<open>A - B\<close> and \<^verbatim>\<open>c * A\<close> on rank-two arrays.\<close>

definition madd :: "mat \<Rightarrow> mat \<Rightarrow> mat" where
  "madd A B = (\<lambda>i j. A i j + B i j)"

definition msub :: "mat \<Rightarrow> mat \<Rightarrow> mat" where
  "msub A B = (\<lambda>i j. A i j - B i j)"

definition mscale :: "real \<Rightarrow> mat \<Rightarrow> mat" where
  "mscale c A = (\<lambda>i j. c * A i j)"

section \<open>Electrostatics\<close>

text \<open>
  \<^verbatim>\<open>
  two_el = 2 * np.vdot(Pi, Jjj)
  att_a = np.vdot(sapt.V_A, Pj)
  att_b = np.vdot(sapt.V_B, Pi)
  rep = sapt.nuc_rep
  elst_ijij = 2 * (two_el + att_a + att_b) + rep
  Elst10 = elst_ijij
  \<close>
\<close>

definition Elst10 :: "nat \<Rightarrow> mat \<Rightarrow> mat \<Rightarrow> mat \<Rightarrow> mat \<Rightarrow> mat \<Rightarrow> real \<Rightarrow> real" where
  "Elst10 nbf P_i P_j Jjj V_A V_B nuc_rep =
     (let two_el = 2 * np_vdot nbf nbf P_i Jjj;
          att_a = np_vdot nbf nbf V_A P_j;
          att_b = np_vdot nbf nbf V_B P_i;
          rep = nuc_rep;
          elst_ijij = 2 * (two_el + att_a + att_b) + rep
      in elst_ijij)"

text \<open>The element-wise (Frobenius) inner product \<open>\<Sum>\<^sub>K\<^sub>L A\<^sub>K\<^sub>L B\<^sub>K\<^sub>L\<close> of the specification.\<close>

definition frobenius :: "nat \<Rightarrow> mat \<Rightarrow> mat \<Rightarrow> real" where
  "frobenius n A B = (\<Sum>K<n. \<Sum>L<n. A K L * B K L)"

section \<open>Helper routines of the SAPT object\<close>

text \<open>
  Modelled from the spec: \<^verbatim>\<open>sapt.chain_dot\<close> is defined in \<^verbatim>\<open>helper_SAPT.py\<close>, which
  is not among the sources. The notebook describes it as a multiplication of a chain of
  matrices, a series of \<^verbatim>\<open>np.dot()\<close> calls, and the specification as a left-to-right
  sequence of dense matrix multiplications. Every factor after the first comes with its
  number of rows, the extent that \<^verbatim>\<open>np.dot\<close> contracts.
\<close>

fun chain_dot :: "mat \<Rightarrow> (nat \<times> mat) list \<Rightarrow> mat" where
  "chain_dot result [] = result"
| "chain_dot result ((m, X) # rest) = chain_dot (np_dot m result X) rest"

text \<open>A list of factors that all have \<open>n\<close> rows.\<close>

definition sq :: "nat \<Rightarrow> mat list \<Rightarrow> (nat \<times> mat) list" where
  "sq n Xs = map (Pair n) Xs"

text \<open>
  Modelled from the spec: \<^verbatim>\<open>sapt.compute_sapt_JK\<close> is defined in \<^verbatim>\<open>helper_SAPT.py\<close>,
  which is not among the sources. Section 4.1 of the specification and the notebook give
  the generalized Coulomb and exchange matrices as
  \<open>J[X]\<^sub>K\<^sub>L = (KL|MN) X\<^sub>M\<^sub>N\<close> and \<open>K[X]\<^sub>K\<^sub>L = (KM|NL) X\<^sub>M\<^sub>N\<close>, with \<open>X = A T B\<^sup>T\<close> for orbital
  matrices \<open>A\<close> (\<open>nbf \<times> n1\<close>), \<open>B\<close> (\<open>nbf \<times> n2\<close>) and the optional tensor \<open>T\<close>
  (\<open>n1 \<times> n2\<close>), and \<open>X = A B\<^sup>T\<close> when the tensor is omitted.
\<close>

definition gen_J :: "nat \<Rightarrow> tensor4 \<Rightarrow> mat \<Rightarrow> mat" where
  "gen_J nbf I X = (\<lambda>K L. \<Sum>M<nbf. \<Sum>N<nbf. I K L M N * X M N)"

definition gen_K :: "nat \<Rightarrow> tensor4 \<Rightarrow> mat \<Rightarrow> mat" where
  "gen_K nbf I X = (\<lambda>K L. \<Sum>M<nbf. \<Sum>N<nbf. I K M N L * X M N)"

definition compute_sapt_JK ::
  "nat \<Rightarrow> nat \<Rightarrow> nat \<Rightarrow> tensor4 \<Rightarrow> mat \<Rightarrow> mat \<Rightarrow> mat option \<Rightarrow> mat \<times> mat" where
  "compute_sapt_JK nbf n1 n2 I A B tensor =
     (let X = (case tensor of
                 None \<Rightarrow> np_dot n1 A (tr B)
               | Some T \<Rightarrow> np_dot n2 (np_dot n1 A T) (tr B))
      in (gen_J nbf I X, gen_K nbf I X))"

section \<open>First-order exchange\<close>

text \<open>
  \<^verbatim>\<open>
  exch = 0
  exch -= 2 * np.vdot(Pj, Kii)
  exch -= 2 * np.vdot(sapt.chain_dot(Pi, S, Pj), (h_A + h_B))
  exch += 2 * np.vdot(sapt.chain_dot(Pj, S, Pi, S, Pj), w_A)
  exch += 2 * np.vdot(sapt.chain_dot(Pi, S, Pj, S, Pi), w_B)
  exch -= 2 * np.vdot(sapt.chain_dot(Pi, S, Pj), Kij)
  Exch100 = exch
  \<close>
\<close>

definition Exch100 ::
  "nat \<Rightarrow> mat \<Rightarrow> mat \<Rightarrow> mat \<Rightarrow> mat \<Rightarrow> mat \<Rightarrow> mat \<Rightarrow> mat \<Rightarrow> mat \<Rightarrow> mat \<Rightarrow> real" where
  "Exch100 nbf P_i P_j S Kii Kij h_A h_B w_A w_B =
     (let exch = 0;
          exch = exch - 2 * np_vdot nbf nbf P_j Kii;
          exch = exch - 2 * np_vdot nbf nbf (chain_dot P_i (sq nbf [S, P_j])) (madd h_A h_B);
          exch = exch + 2 * np_vdot nbf nbf (chain_dot P_j (sq nbf [S, P_i, S, P_j])) w_A;
          exch = exch + 2 * np_vdot nbf nbf (chain_dot P_i (sq nbf [S, P_j, S, P_i])) w_B;
          exch = exch - 2 * np_vdot nbf nbf (chain_dot P_i (sq nbf [S, P_j])) Kij
      in exch)"

section \<open>Dispersion\<close>

text \<open>
  The reciprocal of an array of orbital-energy differences is the one place where the
  notebook divides. NumPy does not raise on a zero divisor: the entry becomes
  \<^verbatim>\<open>inf\<close> and every sum or product it enters is \<^verbatim>\<open>inf\<close> or \<^verbatim>\<open>nan\<close>. The values of
  the dispersion cell are therefore the reals extended by one absorbing element for the
  non-finite floats.
\<close>

datatype npfloat = Finite real | NonFinite

instantiation npfloat :: "{comm_monoid_add, comm_monoid_mult}"
begin

definition zero_npfloat :: npfloat where
  "zero_npfloat = Finite 0"

definition one_npfloat :: npfloat where
  "one_npfloat = Finite 1"

definition plus_npfloat :: "npfloat \<Rightarrow> npfloat \<Rightarrow> npfloat" where
  "plus_npfloat x y = (case (x, y) of (Finite a, Finite b) \<Rightarrow> Finite (a + b) | _ \<Rightarrow> NonFinite)"

definition times_npfloat :: "npfloat \<Rightarrow> npfloat \<Rightarrow> npfloat" where
  "times_npfloat x y = (case (x, y) of (Finite a, Finite b) \<Rightarrow> Finite (a * b) | _ \<Rightarrow> NonFinite)"

instance
proof
  fix a b c :: npfloat
  show "a + b + c = a + (b + c)"
    by (cases a; cases b; cases c) (simp_all add: plus_npfloat_def)
  show "a + b = b + a"
    by (cases a; cases b) (simp_all add: plus_npfloat_def)
  show "0 + a = a"
    by (cases a) (simp_all add: plus_npfloat_def zero_npfloat_def)
  show "a * b * c = a * (b * c)"
    by (cases a; cases b; cases c) (simp_all add: times_npfloat_def)
  show "a * b = b * a"
    by (cases a; cases b) (simp_all add: times_npfloat_def)
  show "1 * a = a"
    by (cases a) (simp_all add: times_npfloat_def one_npfloat_def)
qed

end

instance npfloat :: numeral ..

text \<open>\<^verbatim>\<open>1/x\<close> on an array entry.\<close>

definition np_recip :: "real \<Rightarrow> npfloat" where
  "np_recip x = (if x = 0 then NonFinite else Finite (1 / x))"

text \<open>A finite input array, as an array of floats.\<close>

definition lift4 :: "tensor4 \<Rightarrow> npfloat arr4" where
  "lift4 v = (\<lambda>i j k l. Finite (v i j k l))"

text \<open>
  \<^verbatim>\<open>
  e_rsab = 1/(-sapt.eps('r', dim=4) - sapt.eps('s', dim=3) + sapt.eps('a', dim=2) + sapt.eps('b'))
  \<close>
  The four vectors are broadcast to the axes \<open>r\<close>, \<open>s\<close>, \<open>a\<close>, \<open>b\<close>.
\<close>

definition e_rsab :: "vec \<Rightarrow> vec \<Rightarrow> vec \<Rightarrow> vec \<Rightarrow> npfloat arr4" where
  "e_rsab eps_r eps_s eps_a eps_b =
     (\<lambda>r s a b. np_recip (- eps_r r - eps_s s + eps_a a + eps_b b))"

text \<open>
  \<^verbatim>\<open>
  Disp200 = 4 * np.einsum('rsab,rsab,abrs->', e_rsab, v_rsab, v_abrs, optimize=True)
  \<close>
\<close>

definition Disp200 ::
  "nat \<Rightarrow> nat \<Rightarrow> nat \<Rightarrow> nat \<Rightarrow> 'a arr4 \<Rightarrow> 'a arr4 \<Rightarrow> 'a arr4
     \<Rightarrow> 'a::{comm_monoid_add,comm_monoid_mult,numeral}" where
  "Disp200 nr ns na nb e v_rsab v_abrs =
     4 * (\<Sum>r<nr. \<Sum>s<ns. \<Sum>a<na. \<Sum>b<nb. e r s a b * v_rsab r s a b * v_abrs a b r s)"

text \<open>
  \<^verbatim>\<open>
  t_rsab = np.einsum('rsab,rsab->rsab', v_rsab, e_rsab, optimize=True)
  \<close>
\<close>

definition t_rsab :: "'a arr4 \<Rightarrow> 'a arr4 \<Rightarrow> 'a::times arr4" where
  "t_rsab v_rsab e = (\<lambda>r s a b. v_rsab r s a b * e r s a b)"

text \<open>
  The dispersion cell: the two integral slices \<^verbatim>\<open>sapt.v('abrs')\<close> and
  \<^verbatim>\<open>sapt.v('rsab')\<close> and the four orbital-energy vectors come from the SAPT object. The
  cell has no \<^verbatim>\<open>raise\<close> and no test of the denominators; \<open>Inl\<close> is the outcome that
  section 7 of the specification asks for.
\<close>

datatype sapt_error = NumericalInstability

definition Disp200_cell ::
  "nat \<Rightarrow> nat \<Rightarrow> nat \<Rightarrow> nat \<Rightarrow> vec \<Rightarrow> vec \<Rightarrow> vec \<Rightarrow> vec \<Rightarrow> tensor4 \<Rightarrow> tensor4
     \<Rightarrow> sapt_error + npfloat" where
  "Disp200_cell nr ns na nb eps_r eps_s eps_a eps_b v_abrs v_rsab =
     (let e = e_rsab eps_r eps_s eps_a eps_b
      in Inr (Disp200 nr ns na nb e (lift4 v_rsab) (lift4 v_abrs)))"

text \<open>
  The dispersion energy in the words of section 4.5 of the specification:
  \<open>t\<^sub>r\<^sub>s\<^sub>a\<^sub>b = v\<^sub>r\<^sub>s\<^sub>a\<^sub>b / (\<epsilon>\<^sub>a + \<epsilon>\<^sub>b - \<epsilon>\<^sub>r - \<epsilon>\<^sub>s)\<close> and \<open>Disp = 4 \<Sum> t\<^sub>r\<^sub>s\<^sub>a\<^sub>b v\<^sub>r\<^sub>s\<^sub>a\<^sub>b v\<^sub>a\<^sub>b\<^sub>r\<^sub>s\<close>.
\<close>

definition Disp200_spec ::
  "nat \<Rightarrow> nat \<Rightarrow> nat \<Rightarrow> nat \<Rightarrow> vec \<Rightarrow> vec \<Rightarrow> vec \<Rightarrow> vec \<Rightarrow> tensor4 \<Rightarrow> tensor4 \<Rightarrow> real" where
  "Disp200_spec nr ns na nb eps_r eps_s eps_a eps_b v_abrs v_rsab =
     4 * (\<Sum>r<nr. \<Sum>s<ns. \<Sum>a<na. \<Sum>b<nb.
            (v_rsab r s a b / (eps_a a + eps_b b - eps_r r - eps_s s))
              * v_rsab r s a b * v_abrs a b r s)"

section \<open>Exchange-dispersion\<close>

text \<open>
  \<^verbatim>\<open>np.einsum('lnkm,...->', ...)\<close> sums the product of its operands over the four
  labels \<open>l\<close>, \<open>n\<close>, \<open>k\<close>, \<open>m\<close>, each running over the basis functions.
\<close>

definition sum4 :: "nat \<Rightarrow> tensor4 \<Rightarrow> real" where
  "sum4 nbf f = (\<Sum>l<nbf. \<Sum>n<nbf. \<Sum>k<nbf. \<Sum>m<nbf. f l n k m)"

text \<open>
  \<^verbatim>\<open>
  t_lsab = np.einsum('rsab,rl->lsab', t_rsab, Cr.T, optimize=True)
  t_lnab = np.einsum('lsab,sn->lnab', t_lsab, Cs.T, optimize=True)
  t_lnkb = np.einsum('lnab,ak->lnkb', t_lnab, Ci.T, optimize=True)
  t_lnkm = np.einsum('lnkb,bm->lnkm', t_lnkb, Cj.T, optimize=True)
  \<close>
\<close>

definition t_lnkm ::
  "nat \<Rightarrow> nat \<Rightarrow> nat \<Rightarrow> nat \<Rightarrow> mat \<Rightarrow> mat \<Rightarrow> mat \<Rightarrow> mat \<Rightarrow> tensor4 \<Rightarrow> tensor4" where
  "t_lnkm nr ns na nb Ci Cj Cr Cs t =
     (let t_lsab = (\<lambda>l s a b. \<Sum>r<nr. t r s a b * tr Cr r l);
          t_lnab = (\<lambda>l n a b. \<Sum>s<ns. t_lsab l s a b * tr Cs s n);
          t_lnkb = (\<lambda>l n k b. \<Sum>a<na. t_lnab l n a b * tr Ci a k)
      in (\<lambda>l n k m. \<Sum>b<nb. t_lnkb l n k b * tr Cj b m))"

text \<open>
  \<^verbatim>\<open>
  ExchDisp20 = - 2 * np.einsum('lnkm,knml->', t_lnkm, I, optimize=True)

  ExchDisp20 -= 2 * np.einsum('lnkm,ml,kn->', t_lnkm, h_A, S, optimize=True)
  ExchDisp20 -= 2 * np.einsum('lnkm,ml,kn->', t_lnkm, S, h_B, optimize=True)

  interm = 2 * np.einsum('klmq,nq->klmn', I, np.dot(S, Pi), optimize=True)
  ExchDisp20 -= 2 * np.einsum('lnkm,klmn->', t_lnkm, interm, optimize=True)
  ExchDisp20 += np.einsum('lnkm,mlkn->', t_lnkm, interm, optimize=True)

  interm = 2 * np.einsum('klmq,nq->klmn', I, np.dot(S, Pj), optimize=True)
  ExchDisp20 -= 2 * np.einsum('lnkm,mnkl->', t_lnkm, interm, optimize=True)
  ExchDisp20 += np.einsum('lnkm,knml->', t_lnkm, interm, optimize=True)

  ExchDisp20 -= 4 * np.einsum('lnkm,mn,kl->', t_lnkm, w_A, sapt.chain_dot(S, Pj, S), optimize=True)
  ExchDisp20 += 2 * np.einsum('lnkm,kn,ml->', t_lnkm, S, sapt.chain_dot(w_A, Pj, S), optimize=True)
  ExchDisp20 += 2 * np.einsum('lnkm,ml,nk->', t_lnkm, S, sapt.chain_dot(w_A, Pj, S), optimize=True)

  ExchDisp20 -= 4 * np.einsum('lnkm,kl,mn->', t_lnkm, w_B, sapt.chain_dot(S, Pi, S), optimize=True)
  ExchDisp20 += 2 * np.einsum('lnkm,ml,kn->', t_lnkm, S, sapt.chain_dot(w_B, Pi, S), optimize=True)
  ExchDisp20 += 2 * np.einsum('lnkm,kn,lm->', t_lnkm, S, sapt.chain_dot(w_B, Pi, S), optimize=True)

  spbspa = sapt.chain_dot(S, Pj, S, Pi)
  spaspb = sapt.chain_dot(S, Pi, S, Pj)
  interm = np.einsum('kqmn,lq->klmn', I, spbspa, optimize=True)
  interm += np.einsum('plmn,kp->klmn', I, spbspa, optimize=True)
  interm += np.einsum('klms,ns->klmn', I, spaspb, optimize=True)
  interm += np.einsum('klrn,mr->klmn', I, spaspb, optimize=True)
  ExchDisp20 += 4 * np.einsum('lnkm,klmn->', t_lnkm, interm, optimize=True)

  ExchDisp20 -= 2 * np.einsum('lnkm,kn,ml->', t_lnkm, S, Kij.T, optimize=True)
  ExchDisp20 -= 2 * np.einsum('lnkm,ml,nk->', t_lnkm, S, Kij.T, optimize=True)

  spa = np.dot(S, Pi)
  spb = np.dot(S, Pj)
  interm = np.einsum('kpmq,nq->kpmn', I, spa, optimize=True)
  interm = np.einsum('kpmn,lp->klmn', interm, spb, optimize=True)
  ExchDisp20 -= 2 * np.einsum('lnkm,mlkn->', t_lnkm, interm, optimize=True)
  ExchDisp20 -= 2 * np.einsum('lnkm,nklm->', t_lnkm, interm, optimize=True)
  \<close>
  The last argument \<open>t\<close> is the array \<^verbatim>\<open>t_lnkm\<close>.
\<close>

definition ExchDisp20 ::
  "nat \<Rightarrow> tensor4 \<Rightarrow> mat \<Rightarrow> mat \<Rightarrow> mat \<Rightarrow> mat \<Rightarrow> mat \<Rightarrow> mat \<Rightarrow> mat \<Rightarrow> mat \<Rightarrow> tensor4 \<Rightarrow> real" where
  "ExchDisp20 nbf I S P_i P_j h_A h_B w_A w_B Kij t =
     (let E = - 2 * sum4 nbf (\<lambda>l n k m. t l n k m * I k n m l);

          E = E - 2 * sum4 nbf (\<lambda>l n k m. t l n k m * h_A m l * S k n);
          E = E - 2 * sum4 nbf (\<lambda>l n k m. t l n k m * S m l * h_B k n);

          interm = (\<lambda>k l m n. 2 * (\<Sum>q<nbf. I k l m q * np_dot nbf S P_i n q));
          E = E - 2 * sum4 nbf (\<lambda>l n k m. t l n k m * interm k l m n);
          E = E + sum4 nbf (\<lambda>l n k m. t l n k m * interm m l k n);

          interm = (\<lambda>k l m n. 2 * (\<Sum>q<nbf. I k l m q * np_dot nbf S P_j n q));
          E = E - 2 * sum4 nbf (\<lambda>l n k m. t l n k m * interm m n k l);
          E = E + sum4 nbf (\<lambda>l n k m. t l n k m * interm k n m l);

          E = E - 4 * sum4 nbf (\<lambda>l n k m. t l n k m * w_A m n * chain_dot S (sq nbf [P_j, S]) k l);
          E = E + 2 * sum4 nbf (\<lambda>l n k m. t l n k m * S k n * chain_dot w_A (sq nbf [P_j, S]) m l);
          E = E + 2 * sum4 nbf (\<lambda>l n k m. t l n k m * S m l * chain_dot w_A (sq nbf [P_j, S]) n k);

          E = E - 4 * sum4 nbf (\<lambda>l n k m. t l n k m * w_B k l * chain_dot S (sq nbf [P_i, S]) m n);
          E = E + 2 * sum4 nbf (\<lambda>l n k m. t l n k m * S m l * chain_dot w_B (sq nbf [P_i, S]) k n);
          E = E + 2 * sum4 nbf (\<lambda>l n k m. t l n k m * S k n * chain_dot w_B (sq nbf [P_i, S]) l m);

          spbspa = chain_dot S (sq nbf [P_j, S, P_i]);
          spaspb = chain_dot S (sq nbf [P_i, S, P_j]);
          interm = (\<lambda>k l m n. \<Sum>q<nbf. I k q m n * spbspa l q);
          interm = (\<lambda>k l m n. interm k l m n + (\<Sum>p<nbf. I p l m n * spbspa k p));
          interm = (\<lambda>k l m n. interm k l m n + (\<Sum>s<nbf. I k l m s * spaspb n s));
          interm = (\<lambda>k l m n. interm k l m n + (\<Sum>r<nbf. I k l r n * spaspb m r));
          E = E + 4 * sum4 nbf (\<lambda>l n k m. t l n k m * interm k l m n);

          E = E - 2 * sum4 nbf (\<lambda>l n k m. t l n k m * S k n * tr Kij m l);
          E = E - 2 * sum4 nbf (\<lambda>l n k m. t l n k m * S m l * tr Kij n k);

          spa = np_dot nbf S P_i;
          spb = np_dot nbf S P_j;
          interm = (\<lambda>k p m n. \<Sum>q<nbf. I k p m q * spa n q);
          interm = (\<lambda>k l m n. \<Sum>p<nbf. interm k p m n * spb l p);
          E = E - 2 * sum4 nbf (\<lambda>l n k m. t l n k m * interm m l k n);
          E = E - 2 * sum4 nbf (\<lambda>l n k m. t l n k m * interm n k l m)
      in E)"

text \<open>
  The documented form of the same energy, from the markdown cell above the code: the
  back-transformed amplitude
  \<open>t\<^sub>L\<^sub>N\<^sub>K\<^sub>M = t\<^sub>r\<^sub>s\<^sub>a\<^sub>b C\<^sub>K\<^sub>a C\<^sub>M\<^sub>b C\<^sub>L\<^sub>r C\<^sub>N\<^sub>s\<close>, summed over the four orbital indices, \<open>\<dots>\<close>
\<close>

definition t_LNKM_spec ::
  "nat \<Rightarrow> nat \<Rightarrow> nat \<Rightarrow> nat \<Rightarrow> mat \<Rightarrow> mat \<Rightarrow> mat \<Rightarrow> mat \<Rightarrow> tensor4 \<Rightarrow> tensor4" where
  "t_LNKM_spec nr ns na nb Ci Cj Cr Cs t =
     (\<lambda>L N K M. \<Sum>r<nr. \<Sum>s<ns. \<Sum>a<na. \<Sum>b<nb. t r s a b * Ci K a * Cj M b * Cr L r * Cs N s)"

text \<open>
  \<open>\<dots>\<close> contracted over \<open>K\<close>, \<open>L\<close>, \<open>M\<close>, \<open>N\<close> with the bracket of twenty-one terms; an
  index that occurs twice inside a term is summed. \<open>K_BA\<close> stands for \<open>K[P\<^sup>B S P\<^sup>A]\<close>.
  \<^verbatim>\<open>
  -2 (KN|ML) -2 S_KN (F^A)_ML -2 S_ML (F^B)_KN
  -4 (KL|MQ) (SP^A)_NQ +2 (ML|KQ) (SP^A)_NQ -4 (MN|KQ) (SP^B)_LQ +2 (KN|MQ) (SP^B)_LQ
  -4 (w^A)_MN (SP^B S)_KL +2 S_KN (w^A P^B S)_ML +2 S_ML (w^A P^B S)_NK
  -4 (w^B)_KL (SP^A S)_MN +2 S_ML (w^B P^A S)_KN +2 S_KN (w^B P^A S)_LM
  +4 (KQ|MN) (SP^B SP^A)_LQ +4 (PL|MN) (SP^B SP^A)_KP
  +4 (KL|MS) (SP^A SP^B)_NS +4 (KL|RN) (SP^A SP^B)_MR
  -2 S_KN K[P^B SP^A]_ML -2 S_ML K[P^B SP^A]_NK
  -2 (MS|KQ) (SP^B)_LS (SP^A)_NQ -2 (NR|LP) (SP^B)_KR (SP^A)_MP
  \<close>
\<close>

definition ExchDisp20_bracket ::
  "nat \<Rightarrow> tensor4 \<Rightarrow> mat \<Rightarrow> mat \<Rightarrow> mat \<Rightarrow> mat \<Rightarrow> mat \<Rightarrow> mat \<Rightarrow> mat \<Rightarrow> mat \<Rightarrow> tensor4" where
  "ExchDisp20_bracket nbf I S P_A P_B F_A F_B w_A w_B K_BA =
     (let SPA = np_dot nbf S P_A;
          SPB = np_dot nbf S P_B;
          SPBS = np_dot nbf (np_dot nbf S P_B) S;
          SPAS = np_dot nbf (np_dot nbf S P_A) S;
          wAPBS = np_dot nbf (np_dot nbf w_A P_B) S;
          wBPAS = np_dot nbf (np_dot nbf w_B P_A) S;
          SPBSPA = np_dot nbf (np_dot nbf (np_dot nbf S P_B) S) P_A;
          SPASPB = np_dot nbf (np_dot nbf (np_dot nbf S P_A) S) P_B
      in (\<lambda>K L M N.
           - 2 * I K N M L - 2 * (S K N * F_A M L) - 2 * (S M L * F_B K N)
           - 4 * (\<Sum>Q<nbf. I K L M Q * SPA N Q) + 2 * (\<Sum>Q<nbf. I M L K Q * SPA N Q)
           - 4 * (\<Sum>Q<nbf. I M N K Q * SPB L Q) + 2 * (\<Sum>Q<nbf. I K N M Q * SPB L Q)
           - 4 * (w_A M N * SPBS K L) + 2 * (S K N * wAPBS M L) + 2 * (S M L * wAPBS N K)
           - 4 * (w_B K L * SPAS M N) + 2 * (S M L * wBPAS K N) + 2 * (S K N * wBPAS L M)
           + 4 * (\<Sum>Q<nbf. I K Q M N * SPBSPA L Q) + 4 * (\<Sum>P<nbf. I P L M N * SPBSPA K P)
           + 4 * (\<Sum>U<nbf. I K L M U * SPASPB N U) + 4 * (\<Sum>R<nbf. I K L R N * SPASPB M R)
           - 2 * (S K N * K_BA M L) - 2 * (S M L * K_BA N K)
           - 2 * (\<Sum>U<nbf. \<Sum>Q<nbf. I M U K Q * SPB L U * SPA N Q)
           - 2 * (\<Sum>R<nbf. \<Sum>P<nbf. I N R L P * SPB K R * SPA M P)))"

definition ExchDisp20_spec ::
  "nat \<Rightarrow> tensor4 \<Rightarrow> mat \<Rightarrow> mat \<Rightarrow> mat \<Rightarrow> mat \<Rightarrow> mat \<Rightarrow> mat \<Rightarrow> mat \<Rightarrow> mat \<Rightarrow> tensor4 \<Rightarrow> real" where
  "ExchDisp20_spec nbf I S P_A P_B F_A F_B w_A w_B K_BA t_AO =
     (\<Sum>K<nbf. \<Sum>L<nbf. \<Sum>M<nbf. \<Sum>N<nbf.
        t_AO L N K M * ExchDisp20_bracket nbf I S P_A P_B F_A F_B w_A w_B K_BA K L M N)"

section \<open>Exchange-induction\<close>

text \<open>
  \<^verbatim>\<open>
  CPHFA_ao = sapt.chain_dot(Ci, CPHF_ra.T, Cr.T)
  ExchInd20_ab = -2 * np.vdot(CPHFA_ao, Kjj)
  ExchInd20_ab -= 2 * np.vdot(CPHFA_ao, sapt.chain_dot(S, Pj, h_A))
  ExchInd20_ab -= 2 * np.vdot(CPHFA_ao, sapt.chain_dot(h_B, Pj, S))

  ExchInd20_ab -= 4 * np.vdot(CPHFA_ao, Jij)
  ExchInd20_ab += 2 * np.vdot(CPHFA_ao, Kij)

  ExchInd20_ab += 2 * np.vdot(CPHFA_ao, sapt.chain_dot(w_B, Pi, S, Pj, S))
  ExchInd20_ab += 2 * np.vdot(CPHFA_ao, sapt.chain_dot(S, Pj, S, Pi, w_B))
  ExchInd20_ab += 2 * np.vdot(CPHFA_ao, sapt.chain_dot(S, Pj, w_A, Pj, S))

  Jjij, Kjij = sapt.compute_sapt_JK(Cj, Cj, tensor=sapt.chain_dot(Cj.T, S, Pi, S, Cj))

  ExchInd20_ab += 4 * np.vdot(CPHFA_ao, Jjij)
  ExchInd20_ab -= 2 * np.vdot(CPHFA_ao, sapt.chain_dot(S, Pj, Kij.T))
  ExchInd20_ab -= 2 * np.vdot(CPHFA_ao, sapt.chain_dot(Kij, Pj, S))
  \<close>
  The last argument \<open>jk\<close> is the pair that the call of \<^verbatim>\<open>sapt.compute_sapt_JK\<close> in the
  middle of the block returns.
\<close>

definition ExchInd20_ab ::
  "nat \<Rightarrow> nat \<Rightarrow> nat \<Rightarrow> mat \<Rightarrow> mat \<Rightarrow> mat \<Rightarrow> mat \<Rightarrow> mat \<Rightarrow> mat \<Rightarrow> mat \<Rightarrow> mat \<Rightarrow> mat
     \<Rightarrow> mat \<Rightarrow> mat \<Rightarrow> mat \<Rightarrow> mat \<Rightarrow> mat \<times> mat \<Rightarrow> real" where
  "ExchInd20_ab nbf na nr S Ci Cr P_i P_j h_A h_B w_A w_B Jij Kij Kjj CPHF_ra jk =
     (let CPHFA_ao = chain_dot Ci [(na, tr CPHF_ra), (nr, tr Cr)];
          E = - 2 * np_vdot nbf nbf CPHFA_ao Kjj;
          E = E - 2 * np_vdot nbf nbf CPHFA_ao (chain_dot S (sq nbf [P_j, h_A]));
          E = E - 2 * np_vdot nbf nbf CPHFA_ao (chain_dot h_B (sq nbf [P_j, S]));

          E = E - 4 * np_vdot nbf nbf CPHFA_ao Jij;
          E = E + 2 * np_vdot nbf nbf CPHFA_ao Kij;

          E = E + 2 * np_vdot nbf nbf CPHFA_ao (chain_dot w_B (sq nbf [P_i, S, P_j, S]));
          E = E + 2 * np_vdot nbf nbf CPHFA_ao (chain_dot S (sq nbf [P_j, S, P_i, w_B]));
          E = E + 2 * np_vdot nbf nbf CPHFA_ao (chain_dot S (sq nbf [P_j, w_A, P_j, S]));

          (Jjij, Kjij) = jk;

          E = E + 4 * np_vdot nbf nbf CPHFA_ao Jjij;
          E = E - 2 * np_vdot nbf nbf CPHFA_ao (chain_dot S (sq nbf [P_j, tr Kij]));
          E = E - 2 * np_vdot nbf nbf CPHFA_ao (chain_dot Kij (sq nbf [P_j, S]))
      in E)"

text \<open>
  \<^verbatim>\<open>
  CPHFB_ao = sapt.chain_dot(Cj, CPHF_sb.T, Cs.T)
  ExchInd20_ba = -2 * np.vdot(CPHFB_ao, Kii)
  ExchInd20_ba -= 2 * np.vdot(CPHFB_ao, sapt.chain_dot(S, Pi, h_B))
  ExchInd20_ba -= 2 * np.vdot(CPHFB_ao, sapt.chain_dot(h_A, Pi, S))

  ExchInd20_ba -= 4 * np.vdot(CPHFB_ao, Jij)
  ExchInd20_ba += 2 * np.vdot(CPHFB_ao, Kij.T)

  ExchInd20_ba += 2 * np.vdot(CPHFB_ao, sapt.chain_dot(w_A, Pj, S, Pi, S))
  ExchInd20_ba += 2 * np.vdot(CPHFB_ao, sapt.chain_dot(S, Pi, S, Pj, w_A))
  ExchInd20_ba += 2 * np.vdot(CPHFB_ao, sapt.chain_dot(S, Pi, w_B, Pi, S))

  Jiji, Kiji = sapt.compute_sapt_JK(Ci, Ci, tensor=sapt.chain_dot(Ci.T, S, Pj, S, Ci))

  ExchInd20_ba += 4 * np.vdot(CPHFB_ao, Jiji)
  ExchInd20_ba -= 2 * np.vdot(CPHFB_ao, sapt.chain_dot(S, Pi, Kij))
  ExchInd20_ba -= 2 * np.vdot(CPHFB_ao, sapt.chain_dot(Kij.T, Pi, S))
  \<close>
\<close>

definition ExchInd20_ba ::
  "nat \<Rightarrow> nat \<Rightarrow> nat \<Rightarrow> mat \<Rightarrow> mat \<Rightarrow> mat \<Rightarrow> mat \<Rightarrow> mat \<Rightarrow> mat \<Rightarrow> mat \<Rightarrow> mat \<Rightarrow> mat
     \<Rightarrow> mat \<Rightarrow> mat \<Rightarrow> mat \<Rightarrow> mat \<Rightarrow> mat \<times> mat \<Rightarrow> real" where
  "ExchInd20_ba nbf nb ns S Cj Cs P_i P_j h_A h_B w_A w_B Jij Kij Kii CPHF_sb jk =
     (let CPHFB_ao = chain_dot Cj [(nb, tr CPHF_sb), (ns, tr Cs)];
          E = - 2 * np_vdot nbf nbf CPHFB_ao Kii;
          E = E - 2 * np_vdot nbf nbf CPHFB_ao (chain_dot S (sq nbf [P_i, h_B]));
          E = E - 2 * np_vdot nbf nbf CPHFB_ao (chain_dot h_A (sq nbf [P_i, S]));

          E = E - 4 * np_vdot nbf nbf CPHFB_ao Jij;
          E = E + 2 * np_vdot nbf nbf CPHFB_ao (tr Kij);

          E = E + 2 * np_vdot nbf nbf CPHFB_ao (chain_dot w_A (sq nbf [P_j, S, P_i, S]));
          E = E + 2 * np_vdot nbf nbf CPHFB_ao (chain_dot S (sq nbf [P_i, S, P_j, w_A]));
          E = E + 2 * np_vdot nbf nbf CPHFB_ao (chain_dot S (sq nbf [P_i, w_B, P_i, S]));

          (Jiji, Kiji) = jk;

          E = E + 4 * np_vdot nbf nbf CPHFB_ao Jiji;
          E = E - 2 * np_vdot nbf nbf CPHFB_ao (chain_dot S (sq nbf [P_i, Kij]));
          E = E - 2 * np_vdot nbf nbf CPHFB_ao (chain_dot (tr Kij) (sq nbf [P_i, S]))
      in E)"

text \<open>
  \<^verbatim>\<open>
  sapt0 = Exch100 + Elst10 + Disp200 + ExchDisp20 + Ind20r + ExchInd20r
  \<close>
\<close>

definition sapt0 :: "'a \<Rightarrow> 'a \<Rightarrow> 'a \<Rightarrow> 'a \<Rightarrow> 'a \<Rightarrow> 'a \<Rightarrow> 'a::plus" where
  "sapt0 Exch100' Elst10' Disp200' ExchDisp20' Ind20r ExchInd20r =
     Exch100' + Elst10' + Disp200' + ExchDisp20' + Ind20r + ExchInd20r"

section \<open>Valid inputs\<close>

text \<open>
  Two arrays of shape \<open>r \<times> c\<close> are the same array when they agree on every index inside
  the shape.
\<close>

definition meq :: "nat \<Rightarrow> nat \<Rightarrow> mat \<Rightarrow> mat \<Rightarrow> bool" where
  "meq r c A B = (\<forall>i<r. \<forall>j<c. A i j = B i j)"

text \<open>
  Section 3 of the specification: the one-electron matrices are symmetric, and the
  two-electron integrals satisfy \<open>(KL|MN) = (LK|MN) = (KL|NM) = (MN|KL)\<close>.
\<close>

definition sym_mat :: "nat \<Rightarrow> mat \<Rightarrow> bool" where
  "sym_mat n A = (\<forall>K<n. \<forall>L<n. A K L = A L K)"

definition eri_sym :: "nat \<Rightarrow> tensor4 \<Rightarrow> bool" where
  "eri_sym n I = (\<forall>K<n. \<forall>L<n. \<forall>M<n. \<forall>N<n.
      I K L M N = I L K M N \<and> I K L M N = I K L N M \<and> I K L M N = I M N K L)"

section \<open>The notebook as a function of the SAPT object\<close>

text \<open>
  The fields of \<^verbatim>\<open>sapt\<close> that the notebook reads: the number of basis functions, the
  sizes of the four orbital spaces, \<^verbatim>\<open>sapt.orbitals\<close>, \<^verbatim>\<open>sapt.S\<close>, \<^verbatim>\<open>sapt.V_A\<close>,
  \<^verbatim>\<open>sapt.V_B\<close>, \<^verbatim>\<open>sapt.mints.ao_eri()\<close>, \<^verbatim>\<open>sapt.nuc_rep\<close>, the orbital energies
  \<^verbatim>\<open>sapt.eps\<close>, the integral slices \<^verbatim>\<open>sapt.v('abrs')\<close> and \<^verbatim>\<open>sapt.v('rsab')\<close>, and the
  results \<^verbatim>\<open>(CPHF_ra, Ind20_ba)\<close> of \<^verbatim>\<open>sapt.chf('B', ind=True)\<close> and
  \<^verbatim>\<open>(CPHF_sb, Ind20_ab)\<close> of \<^verbatim>\<open>sapt.chf('A', ind=True)\<close>, which are computed outside the
  notebook.
\<close>

record sapt_helper =
  sapt_nbf :: nat
  sapt_ndocc_A :: nat
  sapt_ndocc_B :: nat
  sapt_nvirt_A :: nat
  sapt_nvirt_B :: nat
  sapt_orbitals_a :: mat
  sapt_orbitals_b :: mat
  sapt_orbitals_r :: mat
  sapt_orbitals_s :: mat
  sapt_S :: mat
  sapt_V_A :: mat
  sapt_V_B :: mat
  sapt_ao_eri :: tensor4
  sapt_nuc_rep :: real
  sapt_eps_a :: vec
  sapt_eps_b :: vec
  sapt_eps_r :: vec
  sapt_eps_s :: vec
  sapt_v_abrs :: tensor4
  sapt_v_rsab :: tensor4
  sapt_chf_B :: "mat \<times> real"
  sapt_chf_A :: "mat \<times> real"

text \<open>
  \<^verbatim>\<open>
  Pi = np.dot(sapt.orbitals['a'], sapt.orbitals['a'].T)
  Pj = np.dot(sapt.orbitals['b'], sapt.orbitals['b'].T)
  Jii, Kii = sapt.compute_sapt_JK(Ci, Ci)
  Jjj, Kjj = sapt.compute_sapt_JK(Cj, Cj)
  Jij, Kij = sapt.compute_sapt_JK(Ci, Cj, tensor=sapt.chain_dot(Ci.T, S, Cj))
  w_A = sapt.V_A + 2 * Jii
  w_B = sapt.V_B + 2 * Jjj
  h_A = sapt.V_A + 2 * Jii - Kii
  h_B = sapt.V_B + 2 * Jjj - Kjj
  \<close>
\<close>

definition nb_Pi :: "sapt_helper \<Rightarrow> mat" where
  "nb_Pi d = np_dot (sapt_ndocc_A d) (sapt_orbitals_a d) (tr (sapt_orbitals_a d))"

definition nb_Pj :: "sapt_helper \<Rightarrow> mat" where
  "nb_Pj d = np_dot (sapt_ndocc_B d) (sapt_orbitals_b d) (tr (sapt_orbitals_b d))"

definition nb_JKii :: "sapt_helper \<Rightarrow> mat \<times> mat" where
  "nb_JKii d = compute_sapt_JK (sapt_nbf d) (sapt_ndocc_A d) (sapt_ndocc_A d) (sapt_ao_eri d)
     (sapt_orbitals_a d) (sapt_orbitals_a d) None"

definition nb_JKjj :: "sapt_helper \<Rightarrow> mat \<times> mat" where
  "nb_JKjj d = compute_sapt_JK (sapt_nbf d) (sapt_ndocc_B d) (sapt_ndocc_B d) (sapt_ao_eri d)
     (sapt_orbitals_b d) (sapt_orbitals_b d) None"

definition nb_JKij :: "sapt_helper \<Rightarrow> mat \<times> mat" where
  "nb_JKij d = compute_sapt_JK (sapt_nbf d) (sapt_ndocc_A d) (sapt_ndocc_B d) (sapt_ao_eri d)
     (sapt_orbitals_a d) (sapt_orbitals_b d)
     (Some (chain_dot (tr (sapt_orbitals_a d)) [(sapt_nbf d, sapt_S d), (sapt_nbf d, sapt_orbitals_b d)]))"

definition nb_w_A :: "sapt_helper \<Rightarrow> mat" where
  "nb_w_A d = madd (sapt_V_A d) (mscale 2 (fst (nb_JKii d)))"

definition nb_w_B :: "sapt_helper \<Rightarrow> mat" where
  "nb_w_B d = madd (sapt_V_B d) (mscale 2 (fst (nb_JKjj d)))"

definition nb_h_A :: "sapt_helper \<Rightarrow> mat" where
  "nb_h_A d = msub (madd (sapt_V_A d) (mscale 2 (fst (nb_JKii d)))) (snd (nb_JKii d))"

definition nb_h_B :: "sapt_helper \<Rightarrow> mat" where
  "nb_h_B d = msub (madd (sapt_V_B d) (mscale 2 (fst (nb_JKjj d)))) (snd (nb_JKjj d))"

text \<open>The energy cells, applied to these intermediates.\<close>

definition nb_Elst10 :: "sapt_helper \<Rightarrow> real" where
  "nb_Elst10 d = Elst10 (sapt_nbf d) (nb_Pi d) (nb_Pj d) (fst (nb_JKjj d))
     (sapt_V_A d) (sapt_V_B d) (sapt_nuc_rep d)"

definition nb_Exch100 :: "sapt_helper \<Rightarrow> real" where
  "nb_Exch100 d = Exch100 (sapt_nbf d) (nb_Pi d) (nb_Pj d) (sapt_S d)
     (snd (nb_JKii d)) (snd (nb_JKij d)) (nb_h_A d) (nb_h_B d) (nb_w_A d) (nb_w_B d)"

definition nb_Disp200 :: "sapt_helper \<Rightarrow> sapt_error + npfloat" where
  "nb_Disp200 d = Disp200_cell (sapt_nvirt_A d) (sapt_nvirt_B d) (sapt_ndocc_A d) (sapt_ndocc_B d)
     (sapt_eps_r d) (sapt_eps_s d) (sapt_eps_a d) (sapt_eps_b d) (sapt_v_abrs d) (sapt_v_rsab d)"

definition nb_Ind20_ba :: "sapt_helper \<Rightarrow> real" where
  "nb_Ind20_ba d = snd (sapt_chf_B d)"

definition nb_Ind20_ab :: "sapt_helper \<Rightarrow> real" where
  "nb_Ind20_ab d = snd (sapt_chf_A d)"

definition nb_ExchInd20_ab :: "sapt_helper \<Rightarrow> real" where
  "nb_ExchInd20_ab d = ExchInd20_ab (sapt_nbf d) (sapt_ndocc_A d) (sapt_nvirt_A d) (sapt_S d)
     (sapt_orbitals_a d) (sapt_orbitals_r d) (nb_Pi d) (nb_Pj d)
     (nb_h_A d) (nb_h_B d) (nb_w_A d) (nb_w_B d)
     (fst (nb_JKij d)) (snd (nb_JKij d)) (snd (nb_JKjj d)) (fst (sapt_chf_B d))
     (compute_sapt_JK (sapt_nbf d) (sapt_ndocc_B d) (sapt_ndocc_B d) (sapt_ao_eri d)
        (sapt_orbitals_b d) (sapt_orbitals_b d)
        (Some (chain_dot (tr (sapt_orbitals_b d))
           [(sapt_nbf d, sapt_S d), (sapt_nbf d, nb_Pi d), (sapt_nbf d, sapt_S d),
            (sapt_nbf d, sapt_orbitals_b d)])))"

definition nb_ExchInd20_ba :: "sapt_helper \<Rightarrow> real" where
  "nb_ExchInd20_ba d = ExchInd20_ba (sapt_nbf d) (sapt_ndocc_B d) (sapt_nvirt_B d) (sapt_S d)
     (sapt_orbitals_b d) (sapt_orbitals_s d) (nb_Pi d) (nb_Pj d)
     (nb_h_A d) (nb_h_B d) (nb_w_A d) (nb_w_B d)
     (fst (nb_JKij d)) (snd (nb_JKij d)) (snd (nb_JKii d)) (fst (sapt_chf_A d))
     (compute_sapt_JK (sapt_nbf d) (sapt_ndocc_A d) (sapt_ndocc_A d) (sapt_ao_eri d)
        (sapt_orbitals_a d) (sapt_orbitals_a d)
        (Some (chain_dot (tr (sapt_orbitals_a d))
           [(sapt_nbf d, sapt_S d), (sapt_nbf d, nb_Pj d), (sapt_nbf d, sapt_S d),
            (sapt_nbf d, sapt_orbitals_a d)])))"

text \<open>
  Exchanging the labels of the two monomers: every monomer-A input takes the place of the
  corresponding monomer-B input. In the integral slices the occupied pair and the virtual
  pair of indices change places.
\<close>

definition swap_monomers :: "sapt_helper \<Rightarrow> sapt_helper" where
  "swap_monomers d =
     \<lparr> sapt_nbf = sapt_nbf d,
       sapt_ndocc_A = sapt_ndocc_B d, sapt_ndocc_B = sapt_ndocc_A d,
       sapt_nvirt_A = sapt_nvirt_B d, sapt_nvirt_B = sapt_nvirt_A d,
       sapt_orbitals_a = sapt_orbitals_b d, sapt_orbitals_b = sapt_orbitals_a d,
       sapt_orbitals_r = sapt_orbitals_s d, sapt_orbitals_s = sapt_orbitals_r d,
       sapt_S = sapt_S d,
       sapt_V_A = sapt_V_B d, sapt_V_B = sapt_V_A d,
       sapt_ao_eri = sapt_ao_eri d,
       sapt_nuc_rep = sapt_nuc_rep d,
       sapt_eps_a = sapt_eps_b d, sapt_eps_b = sapt_eps_a d,
       sapt_eps_r = sapt_eps_s d, sapt_eps_s = sapt_eps_r d,
       sapt_v_abrs = (\<lambda>a b r s. sapt_v_abrs d b a s r),
       sapt_v_rsab = (\<lambda>r s a b. sapt_v_rsab d s r b a),
       sapt_chf_B = sapt_chf_A d, sapt_chf_A = sapt_chf_B d \<rparr>"

definition valid_input :: "sapt_helper \<Rightarrow> bool" where
  "valid_input d \<longleftrightarrow>
     eri_sym (sapt_nbf d) (sapt_ao_eri d) \<and> sym_mat (sapt_nbf d) (sapt_S d) \<and>
     sym_mat (sapt_nbf d) (sapt_V_A d) \<and> sym_mat (sapt_nbf d) (sapt_V_B d)"

text \<open>
  A small input with two basis functions and one orbital in each space.
\<close>

definition example_input :: sapt_helper where
  "example_input =
     \<lparr> sapt_nbf = 2,
       sapt_ndocc_A = 1, sapt_ndocc_B = 1,
       sapt_nvirt_A = 1, sapt_nvirt_B = 1,
       sapt_orbitals_a = (\<lambda>K a. real K + 1), sapt_orbitals_b = (\<lambda>K b. 2 - real K),
       sapt_orbitals_r = (\<lambda>K r. 1 - real K), sapt_orbitals_s = (\<lambda>K s. real K),
       sapt_S = (\<lambda>K L. if K = L then 1 else 1 / 2),
       sapt_V_A = (\<lambda>K L. - real (K + L) - 1), sapt_V_B = (\<lambda>K L. - real (K * L) - 2),
       sapt_ao_eri = (\<lambda>K L M N. real ((K + L) * (M + N)) + 1),
       sapt_nuc_rep = 3,
       sapt_eps_a = (\<lambda>a. - 1), sapt_eps_b = (\<lambda>b. - 2),
       sapt_eps_r = (\<lambda>r. 1), sapt_eps_s = (\<lambda>s. 2),
       sapt_v_abrs = (\<lambda>a b r s. 1 / 2),
       sapt_v_rsab = (\<lambda>r s a b. 1 / 2),
       sapt_chf_B = (\<lambda>r a. 1 / 4, - 1 / 8), sapt_chf_A = (\<lambda>s b. 1 / 3, - 1 / 9) \<rparr>"

section \<open>Properties\<close>

subsection \<open>Electrostatics\<close>

lemma sum_row_major:
  fixes f :: "nat \<Rightarrow> nat \<Rightarrow> real"
  shows "(\<Sum>i<r * c. f (i div c) (i mod c)) = (\<Sum>K<r. \<Sum>L<c. f K L)"
proof -
  have "(\<Sum>K<r. \<Sum>L<c. f K L) = (\<Sum>K<r. \<Sum>i = K * c..<K * c + c. f (i div c) (i mod c))"
  proof (rule sum.cong[OF refl])
    fix K assume "K \<in> {..<r}"
    have "(\<Sum>i = K * c..<K * c + c. f (i div c) (i mod c))
          = (\<Sum>L = 0..<c. f ((L + K * c) div c) ((L + K * c) mod c))"
      using sum.shift_bounds_nat_ivl[of "\<lambda>i. f (i div c) (i mod c)" 0 "K * c" c]
      by (simp add: add.commute)
    also have "\<dots> = (\<Sum>L = 0..<c. f K L)"
      by (rule sum.cong[OF refl]) simp
    finally show "(\<Sum>L<c. f K L) = (\<Sum>i = K * c..<K * c + c. f (i div c) (i mod c))"
      by (simp add: atLeast0LessThan)
  qed
  also have "\<dots> = (\<Sum>i<r * c. f (i div c) (i mod c))"
    by (rule sum.nat_group)
  finally show ?thesis by simp
qed

lemma np_vdot_frobenius: "np_vdot n n A B = frobenius n A B"
  unfolding np_vdot_def frobenius_def by (rule sum_row_major)

text \<open>
  C3. The electrostatic energy of the notebook is
  \<open>2 (2 \<langle>P\<^sub>A, J\<^sub>B\<rangle> + \<langle>V\<^sub>A, P\<^sub>B\<rangle> + \<langle>V\<^sub>B, P\<^sub>A\<rangle>) + V\<^sub>n\<^sub>u\<^sub>c\<close>, where the bracket is the
  element-wise inner product over both indices.
\<close>

theorem Elst10_formula:
  "Elst10 nbf P_A P_B J_B V_A V_B V_nuc =
     2 * (2 * frobenius nbf P_A J_B + frobenius nbf V_A P_B + frobenius nbf V_B P_A) + V_nuc"
  unfolding Elst10_def Let_def np_vdot_frobenius by (rule refl)

subsection \<open>Dispersion\<close>

lemma Finite_plus [simp]: "Finite x + Finite y = Finite (x + y)"
  by (simp add: plus_npfloat_def)

lemma Finite_times [simp]: "Finite x * Finite y = Finite (x * y)"
  by (simp add: times_npfloat_def)

lemma NonFinite_plus [simp]: "NonFinite + y = NonFinite" "y + NonFinite = NonFinite"
  by (cases y; simp add: plus_npfloat_def)+

lemma NonFinite_times [simp]: "NonFinite * y = NonFinite" "y * NonFinite = NonFinite"
  by (cases y; simp add: times_npfloat_def)+

lemma numeral_npfloat: "(numeral k :: npfloat) = Finite (numeral k)"
proof (induction k)
  case One
  show ?case by (simp add: one_npfloat_def)
next
  case (Bit0 k)
  show ?case by (simp only: numeral_Bit0 Bit0.IH Finite_plus)
next
  case (Bit1 k)
  show ?case by (simp only: numeral_Bit1 Bit1.IH Finite_plus one_npfloat_def)
qed

lemma sum_Finite: "finite A \<Longrightarrow> (\<Sum>i\<in>A. Finite (f i)) = Finite (\<Sum>i\<in>A. f i)"
  by (induction A rule: finite_induct) (simp_all add: zero_npfloat_def)

lemma sum_NonFinite:
  assumes "finite A" "i \<in> A" "f i = NonFinite"
  shows "sum f A = (NonFinite :: npfloat)"
  using assms by (simp add: sum.remove[of A i f])

lemma Disp200_finite:
  assumes nz: "\<forall>r<nr. \<forall>s<ns. \<forall>a<na. \<forall>b<nb. eps_a a + eps_b b - eps_r r - eps_s s \<noteq> 0"
  shows "Disp200 nr ns na nb (e_rsab eps_r eps_s eps_a eps_b) (lift4 v_rsab) (lift4 v_abrs) =
     Finite (4 * (\<Sum>r<nr. \<Sum>s<ns. \<Sum>a<na. \<Sum>b<nb.
        (v_rsab r s a b / (eps_a a + eps_b b - eps_r r - eps_s s)) * v_abrs a b r s))"
proof -
  have el: "e_rsab eps_r eps_s eps_a eps_b r s a b * lift4 v_rsab r s a b * lift4 v_abrs a b r s
      = Finite ((v_rsab r s a b / (eps_a a + eps_b b - eps_r r - eps_s s)) * v_abrs a b r s)"
    if "r < nr" "s < ns" "a < na" "b < nb" for r s a b
  proof -
    have "eps_a a + eps_b b - eps_r r - eps_s s \<noteq> 0" using nz that by blast
    moreover have "- eps_r r - eps_s s + eps_a a + eps_b b = eps_a a + eps_b b - eps_r r - eps_s s"
      by simp
    ultimately show ?thesis
      by (simp add: e_rsab_def np_recip_def lift4_def)
  qed
  have "(\<Sum>r<nr. \<Sum>s<ns. \<Sum>a<na. \<Sum>b<nb.
           e_rsab eps_r eps_s eps_a eps_b r s a b * lift4 v_rsab r s a b * lift4 v_abrs a b r s)
      = (\<Sum>r<nr. \<Sum>s<ns. \<Sum>a<na. \<Sum>b<nb.
           Finite ((v_rsab r s a b / (eps_a a + eps_b b - eps_r r - eps_s s)) * v_abrs a b r s))"
    by (intro sum.cong refl el) simp_all
  then show ?thesis
    by (simp add: Disp200_def sum_Finite numeral_npfloat)
qed

lemma Disp200_nonfinite:
  assumes "r < nr" "s < ns" "a < na" "b < nb" "eps_a a + eps_b b - eps_r r - eps_s s = 0"
  shows "Disp200 nr ns na nb (e_rsab eps_r eps_s eps_a eps_b) (lift4 v_rsab) (lift4 v_abrs) = NonFinite"
proof -
  let ?f = "\<lambda>r s a b. e_rsab eps_r eps_s eps_a eps_b r s a b * lift4 v_rsab r s a b * lift4 v_abrs a b r s"
  have "- eps_r r - eps_s s + eps_a a + eps_b b = 0" using assms(5) by simp
  then have "?f r s a b = NonFinite"
    by (simp add: e_rsab_def np_recip_def)
  then have "(\<Sum>b<nb. ?f r s a b) = NonFinite"
    using assms(4) by (intro sum_NonFinite[where i = b and f = "\<lambda>b. ?f r s a b"]) simp_all
  then have "(\<Sum>a<na. \<Sum>b<nb. ?f r s a b) = NonFinite"
    using assms(3)
    by (intro sum_NonFinite[where i = a and f = "\<lambda>a. \<Sum>b<nb. ?f r s a b"]) simp_all
  then have "(\<Sum>s<ns. \<Sum>a<na. \<Sum>b<nb. ?f r s a b) = NonFinite"
    using assms(2)
    by (intro sum_NonFinite[where i = s and f = "\<lambda>s. \<Sum>a<na. \<Sum>b<nb. ?f r s a b"]) simp_all
  then have "(\<Sum>r<nr. \<Sum>s<ns. \<Sum>a<na. \<Sum>b<nb. ?f r s a b) = NonFinite"
    using assms(1)
    by (intro sum_NonFinite[where i = r and f = "\<lambda>r. \<Sum>s<ns. \<Sum>a<na. \<Sum>b<nb. ?f r s a b"]) simp_all
  then show ?thesis by (simp add: Disp200_def)
qed

text \<open>
  C4 (as stated, refuted). With one orbital in each space, \<open>\<epsilon>\<^sub>a = \<epsilon>\<^sub>b = - 1\<close>,
  \<open>\<epsilon>\<^sub>r = \<epsilon>\<^sub>s = 1\<close> and both integral slices equal to \<open>2\<close>, the denominator is \<open>- 4\<close>, the
  cell returns \<open>4 * (- 1 / 4) * 2 * 2 = - 4\<close>, and the formula of the specification, which
  multiplies the amplitude \<open>2 / (- 4)\<close> by \<open>v\<^sub>r\<^sub>s\<^sub>a\<^sub>b\<close> once more, gives \<open>- 8\<close>.
\<close>

theorem Disp200_spec_counterexample:
  "(- 1) + (- 1) - 1 - 1 \<noteq> (0::real) \<and>
   Disp200_cell 1 1 1 1 (\<lambda>_. 1) (\<lambda>_. 1) (\<lambda>_. - 1) (\<lambda>_. - 1) (\<lambda>_ _ _ _. 2) (\<lambda>_ _ _ _. 2)
     = Inr (Finite (- 4)) \<and>
   Disp200_spec 1 1 1 1 (\<lambda>_. 1) (\<lambda>_. 1) (\<lambda>_. - 1) (\<lambda>_. - 1) (\<lambda>_ _ _ _. 2) (\<lambda>_ _ _ _. 2) = - 8 \<and>
   Disp200_cell 1 1 1 1 (\<lambda>_. 1) (\<lambda>_. 1) (\<lambda>_. - 1) (\<lambda>_. - 1) (\<lambda>_ _ _ _. 2) (\<lambda>_ _ _ _. 2)
     \<noteq> Inr (Finite (Disp200_spec 1 1 1 1 (\<lambda>_. 1) (\<lambda>_. 1) (\<lambda>_. - 1) (\<lambda>_. - 1)
                       (\<lambda>_ _ _ _. 2) (\<lambda>_ _ _ _. 2)))"
  by (simp add: Disp200_cell_def Disp200_def Disp200_spec_def e_rsab_def np_recip_def lift4_def
        numeral_npfloat)

text \<open>
  C4 (amended). When every denominator \<open>\<epsilon>\<^sub>a + \<epsilon>\<^sub>b - \<epsilon>\<^sub>r - \<epsilon>\<^sub>s\<close> is nonzero, the
  dispersion cell returns \<open>4 \<Sum> t\<^sub>r\<^sub>s\<^sub>a\<^sub>b v\<^sub>a\<^sub>b\<^sub>r\<^sub>s\<close> over all four orbital indices, with
  \<open>t\<^sub>r\<^sub>s\<^sub>a\<^sub>b = v\<^sub>r\<^sub>s\<^sub>a\<^sub>b / (\<epsilon>\<^sub>a + \<epsilon>\<^sub>b - \<epsilon>\<^sub>r - \<epsilon>\<^sub>s)\<close>.
\<close>

theorem Disp200_cell_value:
  assumes "\<forall>r<nr. \<forall>s<ns. \<forall>a<na. \<forall>b<nb. eps_a a + eps_b b - eps_r r - eps_s s \<noteq> 0"
  shows "Disp200_cell nr ns na nb eps_r eps_s eps_a eps_b v_abrs v_rsab =
     Inr (Finite (4 * (\<Sum>r<nr. \<Sum>s<ns. \<Sum>a<na. \<Sum>b<nb.
        (v_rsab r s a b / (eps_a a + eps_b b - eps_r r - eps_s s)) * v_abrs a b r s)))"
  unfolding Disp200_cell_def Let_def using Disp200_finite[OF assms] by simp

theorem Disp200_cell_value_witness:
  "Disp200_cell 1 1 1 1 (\<lambda>_. 1) (\<lambda>_. 1) (\<lambda>_. - 1) (\<lambda>_. - 1) (\<lambda>_ _ _ _. 2) (\<lambda>_ _ _ _. 2)
     = Inr (Finite (- 4))"
  by (rule trans[OF Disp200_cell_value]) simp_all

text \<open>
  C5 (as stated, refuted). No input makes the dispersion cell report an error: there is
  no input, with a small denominator or any other, on which its outcome is \<open>Inl\<close>.
\<close>

theorem Disp200_cell_no_error:
  "\<not> (\<exists>nr ns na nb eps_r eps_s eps_a eps_b v_abrs v_rsab err.
        Disp200_cell nr ns na nb eps_r eps_s eps_a eps_b v_abrs v_rsab = Inl err)"
  by (simp add: Disp200_cell_def)

text \<open>
  C5 (amended). On every input the dispersion cell performs the division and returns a
  value; when some denominator is exactly zero, the value it returns is the non-finite
  float, passed on without any error.
\<close>

theorem Disp200_cell_silent:
  "(\<exists>x. Disp200_cell nr ns na nb eps_r eps_s eps_a eps_b v_abrs v_rsab = Inr x) \<and>
   ((\<exists>r<nr. \<exists>s<ns. \<exists>a<na. \<exists>b<nb. eps_a a + eps_b b - eps_r r - eps_s s = 0) \<longrightarrow>
      Disp200_cell nr ns na nb eps_r eps_s eps_a eps_b v_abrs v_rsab = Inr NonFinite)"
  unfolding Disp200_cell_def Let_def using Disp200_nonfinite by auto

theorem Disp200_cell_silent_witness:
  "Disp200_cell 1 1 1 1 (\<lambda>_. 0) (\<lambda>_. 0) (\<lambda>_. 0) (\<lambda>_. 0) (\<lambda>_ _ _ _. 2) (\<lambda>_ _ _ _. 2)
     = Inr NonFinite"
  by (rule Disp200_cell_silent[THEN conjunct2, THEN mp]) simp

text \<open>
  C10. The dispersion energy \<open>4 \<Sum> e\<^sub>r\<^sub>s\<^sub>a\<^sub>b v\<^sub>r\<^sub>s\<^sub>a\<^sub>b v\<^sub>a\<^sub>b\<^sub>r\<^sub>s\<close> of the dispersion cell equals
  \<open>4 \<Sum> t\<^sub>r\<^sub>s\<^sub>a\<^sub>b v\<^sub>a\<^sub>b\<^sub>r\<^sub>s\<close> for the amplitude \<open>t\<^sub>r\<^sub>s\<^sub>a\<^sub>b\<close> that the exchange-dispersion cell
  builds as the element-wise product of \<open>v\<^sub>r\<^sub>s\<^sub>a\<^sub>b\<close> and \<open>e\<^sub>r\<^sub>s\<^sub>a\<^sub>b\<close>, for every denominator
  array, finite or not.
\<close>

theorem Disp200_amplitude:
  fixes e :: "'a::{comm_monoid_add,comm_monoid_mult,numeral} arr4"
  shows "Disp200 nr ns na nb e v_rsab v_abrs =
     4 * (\<Sum>r<nr. \<Sum>s<ns. \<Sum>a<na. \<Sum>b<nb. t_rsab v_rsab e r s a b * v_abrs a b r s)"
  by (simp add: Disp200_def t_rsab_def mult.commute)

subsection \<open>First-order exchange\<close>

lemma chain_dot_sq2: "chain_dot A (sq n [B, C]) = np_dot n (np_dot n A B) C"
  by (simp add: sq_def)

lemma chain_dot_sq3: "chain_dot A (sq n [B, C, D]) = np_dot n (np_dot n (np_dot n A B) C) D"
  by (simp add: sq_def)

lemma chain_dot_sq4:
  "chain_dot A (sq n [B, C, D, E]) = np_dot n (np_dot n (np_dot n (np_dot n A B) C) D) E"
  by (simp add: sq_def)

text \<open>
  C2. The first-order exchange energy of the notebook is
  \<open>- 2 \<langle>P\<^sub>B, K\<^sub>A\<rangle> - 2 \<langle>P\<^sub>A S P\<^sub>B, F\<^sub>A + F\<^sub>B\<rangle> + 2 \<langle>P\<^sub>B S P\<^sub>A S P\<^sub>B, \<omega>\<^sub>A\<rangle>
    + 2 \<langle>P\<^sub>A S P\<^sub>B S P\<^sub>A, \<omega>\<^sub>B\<rangle> - 2 \<langle>P\<^sub>A S P\<^sub>B, K[P\<^sub>A S P\<^sub>B]\<rangle>\<close>,
  every chained product being the left-to-right sequence of matrix multiplications.
\<close>

theorem Exch100_formula:
  "Exch100 nbf P_A P_B S K_A K_AB F_A F_B w_A w_B =
     - 2 * frobenius nbf P_B K_A
     - 2 * frobenius nbf (np_dot nbf (np_dot nbf P_A S) P_B) (madd F_A F_B)
     + 2 * frobenius nbf (np_dot nbf (np_dot nbf (np_dot nbf (np_dot nbf P_B S) P_A) S) P_B) w_A
     + 2 * frobenius nbf (np_dot nbf (np_dot nbf (np_dot nbf (np_dot nbf P_A S) P_B) S) P_A) w_B
     - 2 * frobenius nbf (np_dot nbf (np_dot nbf P_A S) P_B) K_AB"
  by (simp add: Exch100_def Let_def np_vdot_frobenius chain_dot_sq2 chain_dot_sq4)

subsection \<open>Sums over four indices and arrays that agree on their shape\<close>

lemma ExchDisp20_closed:
  "ExchDisp20 nbf I S P_i P_j h_A h_B w_A w_B Kij t =
     sum4 nbf (\<lambda>l n k m. t l n k m * ExchDisp20_bracket nbf I S P_i P_j h_A h_B w_A w_B (tr Kij) k l m n)"
  unfolding ExchDisp20_def ExchDisp20_bracket_def Let_def chain_dot_sq2 chain_dot_sq3
  by (simp add: sum4_def sum_distrib_left sum_distrib_right distrib_left right_diff_distrib
       sum.distrib sum_subtractf sum_negf mult_ac)

lemma sum4_cmul: "sum4 n (\<lambda>l n' k m. c * f l n' k m) = c * sum4 n f"
  by (simp add: sum4_def sum_distrib_left)

lemma sum_swap23:
  fixes g :: "'a \<Rightarrow> 'b \<Rightarrow> 'c \<Rightarrow> 'd::comm_monoid_add"
  shows "(\<Sum>i\<in>A. \<Sum>j\<in>B. \<Sum>k\<in>C. g i j k) = (\<Sum>i\<in>A. \<Sum>k\<in>C. \<Sum>j\<in>B. g i j k)"
  by (rule sum.cong[OF refl]) (rule sum.swap)

lemma sum_swap34:
  fixes g :: "'a \<Rightarrow> 'b \<Rightarrow> 'c \<Rightarrow> 'e \<Rightarrow> 'd::comm_monoid_add"
  shows "(\<Sum>i\<in>A. \<Sum>j\<in>B. \<Sum>k\<in>C. \<Sum>l\<in>D. g i j k l) = (\<Sum>i\<in>A. \<Sum>j\<in>B. \<Sum>l\<in>D. \<Sum>k\<in>C. g i j k l)"
  by (rule sum.cong[OF refl], rule sum.cong[OF refl], rule sum.swap)

lemma sum4_reverse:
  fixes f :: "nat \<Rightarrow> nat \<Rightarrow> nat \<Rightarrow> nat \<Rightarrow> 'd::comm_monoid_add"
  shows "(\<Sum>b<nb. \<Sum>a<na. \<Sum>s<ns. \<Sum>r<nr. f r s a b) = (\<Sum>r<nr. \<Sum>s<ns. \<Sum>a<na. \<Sum>b<nb. f r s a b)"
proof -
  have "(\<Sum>b<nb. \<Sum>a<na. \<Sum>s<ns. \<Sum>r<nr. f r s a b) = (\<Sum>b<nb. \<Sum>a<na. \<Sum>r<nr. \<Sum>s<ns. f r s a b)"
    by (rule sum_swap34)
  also have "\<dots> = (\<Sum>b<nb. \<Sum>r<nr. \<Sum>a<na. \<Sum>s<ns. f r s a b)"
    by (rule sum_swap23)
  also have "\<dots> = (\<Sum>r<nr. \<Sum>b<nb. \<Sum>a<na. \<Sum>s<ns. f r s a b)"
    by (rule sum.swap)
  also have "\<dots> = (\<Sum>r<nr. \<Sum>b<nb. \<Sum>s<ns. \<Sum>a<na. f r s a b)"
    by (rule sum_swap34)
  also have "\<dots> = (\<Sum>r<nr. \<Sum>s<ns. \<Sum>b<nb. \<Sum>a<na. f r s a b)"
    by (rule sum_swap23)
  also have "\<dots> = (\<Sum>r<nr. \<Sum>s<ns. \<Sum>a<na. \<Sum>b<nb. f r s a b)"
    by (rule sum_swap34)
  finally show ?thesis .
qed

lemma sum4_KLMN:
  "(\<Sum>K<n. \<Sum>L<n. \<Sum>M<n. \<Sum>N<n. f K L M N) = sum4 n (\<lambda>l n' k m. f k l m n')"
proof -
  have "(\<Sum>K<n. \<Sum>L<n. \<Sum>M<n. \<Sum>N<n. f K L M N) = (\<Sum>L<n. \<Sum>K<n. \<Sum>M<n. \<Sum>N<n. f K L M N)"
    by (rule sum.swap)
  also have "\<dots> = (\<Sum>L<n. \<Sum>K<n. \<Sum>N<n. \<Sum>M<n. f K L M N)"
    by (rule sum_swap34)
  also have "\<dots> = (\<Sum>L<n. \<Sum>N<n. \<Sum>K<n. \<Sum>M<n. f K L M N)"
    by (rule sum_swap23)
  finally show ?thesis by (simp add: sum4_def)
qed

lemma t_lnkm_spec: "t_lnkm nr ns na nb Ci Cj Cr Cs t = t_LNKM_spec nr ns na nb Ci Cj Cr Cs t"
proof (intro ext)
  fix l n k m
  have "t_lnkm nr ns na nb Ci Cj Cr Cs t l n k m
      = (\<Sum>b<nb. \<Sum>a<na. \<Sum>s<ns. \<Sum>r<nr. t r s a b * Ci k a * Cj m b * Cr l r * Cs n s)"
    by (simp add: t_lnkm_def Let_def tr_def sum_distrib_left sum_distrib_right mult_ac)
  also have "\<dots> = (\<Sum>r<nr. \<Sum>s<ns. \<Sum>a<na. \<Sum>b<nb. t r s a b * Ci k a * Cj m b * Cr l r * Cs n s)"
    by (rule sum4_reverse)
  finally show "t_lnkm nr ns na nb Ci Cj Cr Cs t l n k m = t_LNKM_spec nr ns na nb Ci Cj Cr Cs t l n k m"
    by (simp add: t_LNKM_spec_def)
qed

lemma ExchDisp20_spec_sum4:
  "ExchDisp20_spec nbf I S P_A P_B F_A F_B w_A w_B K_BA t =
     sum4 nbf (\<lambda>l n k m. t l n k m * ExchDisp20_bracket nbf I S P_A P_B F_A F_B w_A w_B K_BA k l m n)"
  unfolding ExchDisp20_spec_def by (rule sum4_KLMN)

lemma ExchDisp20_bracket_cong:
  assumes "meq nbf nbf K1 K2" "K < nbf" "L < nbf" "M < nbf" "N < nbf"
  shows "ExchDisp20_bracket nbf I S P_A P_B F_A F_B w_A w_B K1 K L M N
       = ExchDisp20_bracket nbf I S P_A P_B F_A F_B w_A w_B K2 K L M N"
proof -
  have "K1 M L = K2 M L" "K1 N K = K2 N K"
    using assms by (simp_all add: meq_def)
  then show ?thesis
    by (simp add: ExchDisp20_bracket_def Let_def)
qed

lemma sum4_cong:
  assumes "\<And>l n' k m. l < n \<Longrightarrow> n' < n \<Longrightarrow> k < n \<Longrightarrow> m < n \<Longrightarrow> f l n' k m = g l n' k m"
  shows "sum4 n f = sum4 n g"
  unfolding sum4_def by (intro sum.cong refl assms) simp_all

lemma ExchDisp20_documented:
  assumes "meq nbf nbf K_BA (tr Kij)"
  shows "ExchDisp20 nbf I S P_i P_j h_A h_B w_A w_B Kij t
       = ExchDisp20_spec nbf I S P_i P_j h_A h_B w_A w_B K_BA t"
  unfolding ExchDisp20_closed ExchDisp20_spec_sum4
  by (rule sum4_cong) (simp add: ExchDisp20_bracket_cong[OF assms])

lemma tr_tr [simp]: "tr (tr A) = A"
  by (simp add: tr_def)

lemma tr_np_dot: "tr (np_dot m A B) = np_dot m (tr B) (tr A)"
  by (simp add: tr_def np_dot_def mult.commute)

lemma np_dot_assoc: "np_dot m (np_dot k A B) C = np_dot k A (np_dot m B C)"
proof (intro ext)
  fix i j
  have "np_dot m (np_dot k A B) C i j = (\<Sum>q<m. \<Sum>p<k. A i p * B p q * C q j)"
    by (simp add: np_dot_def sum_distrib_right)
  also have "\<dots> = (\<Sum>p<k. \<Sum>q<m. A i p * B p q * C q j)"
    by (rule sum.swap)
  also have "\<dots> = np_dot k A (np_dot m B C) i j"
    by (simp add: np_dot_def sum_distrib_left mult.assoc)
  finally show "np_dot m (np_dot k A B) C i j = np_dot k A (np_dot m B C) i j" .
qed

lemma meq_refl [simp]: "meq r c A A"
  by (simp add: meq_def)

lemma meq_sym: "meq r c A B \<Longrightarrow> meq r c B A"
  by (simp add: meq_def)

lemma meq_tr: "meq r c A B \<Longrightarrow> meq c r (tr A) (tr B)"
  by (simp add: meq_def tr_def)

lemma sym_mat_meq: "sym_mat n A \<longleftrightarrow> meq n n (tr A) A"
  by (auto simp add: sym_mat_def meq_def tr_def)

lemma np_dot_meq:
  assumes "meq r m A A'" "meq m c B B'"
  shows "meq r c (np_dot m A B) (np_dot m A' B')"
  using assms by (simp add: meq_def np_dot_def)

lemma frobenius_meq:
  assumes "meq n n A A'" "meq n n B B'"
  shows "frobenius n A B = frobenius n A' B'"
  using assms by (simp add: meq_def frobenius_def)

lemma gen_J_meq: "meq n n X Y \<Longrightarrow> gen_J n I X = gen_J n I Y"
  by (simp add: meq_def gen_J_def)

lemma gen_K_meq: "meq n n X Y \<Longrightarrow> gen_K n I X = gen_K n I Y"
  by (simp add: meq_def gen_K_def)

lemma gen_J_tr:
  assumes "eri_sym n I"
  shows "meq n n (gen_J n I (tr X)) (gen_J n I X)"
  unfolding meq_def
proof (intro allI impI)
  fix K L assume KL: "K < n" "L < n"
  have "gen_J n I (tr X) K L = (\<Sum>M<n. \<Sum>N<n. I K L M N * X N M)"
    by (simp add: gen_J_def tr_def)
  also have "\<dots> = (\<Sum>N<n. \<Sum>M<n. I K L M N * X N M)"
    by (rule sum.swap)
  also have "\<dots> = (\<Sum>N<n. \<Sum>M<n. I K L N M * X N M)"
    using assms KL by (intro sum.cong refl) (simp add: eri_sym_def)
  finally show "gen_J n I (tr X) K L = gen_J n I X K L"
    by (simp add: gen_J_def)
qed

lemma gen_K_tr:
  assumes "eri_sym n I"
  shows "meq n n (gen_K n I (tr X)) (tr (gen_K n I X))"
  unfolding meq_def
proof (intro allI impI)
  fix K L assume KL: "K < n" "L < n"
  have perm: "I K M N L = I L N M K" if "M < n" "N < n" for M N
  proof -
    have "I K M N L = I N L K M" using assms KL that by (simp add: eri_sym_def)
    also have "\<dots> = I L N K M" using assms KL that by (simp add: eri_sym_def)
    also have "\<dots> = I L N M K" using assms KL that by (simp add: eri_sym_def)
    finally show ?thesis .
  qed
  have "gen_K n I (tr X) K L = (\<Sum>M<n. \<Sum>N<n. I K M N L * X N M)"
    by (simp add: gen_K_def tr_def)
  also have "\<dots> = (\<Sum>N<n. \<Sum>M<n. I K M N L * X N M)"
    by (rule sum.swap)
  also have "\<dots> = (\<Sum>N<n. \<Sum>M<n. I L N M K * X N M)"
    by (intro sum.cong refl) (simp add: perm)
  finally show "gen_K n I (tr X) K L = tr (gen_K n I X) K L"
    by (simp add: gen_K_def tr_def)
qed

lemma tr_triple:
  assumes "sym_mat n A" "sym_mat n S" "sym_mat n B"
  shows "meq n n (np_dot n (np_dot n B S) A) (tr (np_dot n (np_dot n A S) B))"
proof -
  have "tr (np_dot n (np_dot n A S) B) = np_dot n (np_dot n (tr B) (tr S)) (tr A)"
    by (simp add: tr_np_dot np_dot_assoc)
  moreover have "meq n n (np_dot n (np_dot n B S) A) (np_dot n (np_dot n (tr B) (tr S)) (tr A))"
    using assms by (intro np_dot_meq meq_sym[OF iffD1[OF sym_mat_meq]])
  ultimately show ?thesis by simp
qed

lemma sym_mat_density: "sym_mat n (np_dot m C (tr C))"
  by (simp add: sym_mat_def np_dot_def tr_def mult.commute)

lemma compute_sapt_JK_cross:
  "compute_sapt_JK nbf n1 n2 I A B (Some (chain_dot (tr A) [(nbf, S), (nbf, B)])) =
     (gen_J nbf I (np_dot nbf (np_dot nbf (np_dot n1 A (tr A)) S) (np_dot n2 B (tr B))),
      gen_K nbf I (np_dot nbf (np_dot nbf (np_dot n1 A (tr A)) S) (np_dot n2 B (tr B))))"
  by (simp add: compute_sapt_JK_def Let_def np_dot_assoc)

lemma gen_JK_swap:
  assumes "eri_sym nbf I" "sym_mat nbf P_A" "sym_mat nbf P_B" "sym_mat nbf S"
  shows "meq nbf nbf (gen_J nbf I (np_dot nbf (np_dot nbf P_B S) P_A))
                     (gen_J nbf I (np_dot nbf (np_dot nbf P_A S) P_B))"
    and "meq nbf nbf (gen_K nbf I (np_dot nbf (np_dot nbf P_B S) P_A))
                     (tr (gen_K nbf I (np_dot nbf (np_dot nbf P_A S) P_B)))"
proof -
  let ?X = "np_dot nbf (np_dot nbf P_A S) P_B"
  have X: "meq nbf nbf (np_dot nbf (np_dot nbf P_B S) P_A) (tr ?X)"
    using assms by (intro tr_triple)
  show "meq nbf nbf (gen_J nbf I (np_dot nbf (np_dot nbf P_B S) P_A)) (gen_J nbf I ?X)"
    using gen_J_tr[OF assms(1), of ?X] by (simp add: gen_J_meq[OF X])
  show "meq nbf nbf (gen_K nbf I (np_dot nbf (np_dot nbf P_B S) P_A)) (tr (gen_K nbf I ?X))"
    using gen_K_tr[OF assms(1), of ?X] by (simp add: gen_K_meq[OF X])
qed

text \<open>
  C6. For a two-electron tensor with the pair symmetries and symmetric \<open>P\<^sub>A\<close>, \<open>P\<^sub>B\<close>, \<open>S\<close>,
  the generalized operators satisfy \<open>J[P\<^sub>B S P\<^sub>A] = J[P\<^sub>A S P\<^sub>B]\<close> and
  \<open>K[P\<^sub>B S P\<^sub>A] = K[P\<^sub>A S P\<^sub>B]\<^sup>T\<close> as \<open>nbf \<times> nbf\<close> arrays.
\<close>

theorem JK_symmetry:
  assumes "eri_sym nbf I" "sym_mat nbf P_A" "sym_mat nbf P_B" "sym_mat nbf S"
  shows "meq nbf nbf (gen_J nbf I (np_dot nbf (np_dot nbf P_B S) P_A))
                     (gen_J nbf I (np_dot nbf (np_dot nbf P_A S) P_B))
       \<and> meq nbf nbf (gen_K nbf I (np_dot nbf (np_dot nbf P_B S) P_A))
                     (tr (gen_K nbf I (np_dot nbf (np_dot nbf P_A S) P_B)))"
  using gen_JK_swap[OF assms] by (rule conjI)

theorem JK_symmetry_witness:
  "meq 2 2 (gen_J 2 (\<lambda>K L M N. real ((K + L) * (M + N)))
              (np_dot 2 (np_dot 2 (\<lambda>K L. real (K + L)) (\<lambda>K L. if K = L then 1 else 1 / 2))
                 (\<lambda>K L. real (K * L) + 1)))
           (gen_J 2 (\<lambda>K L M N. real ((K + L) * (M + N)))
              (np_dot 2 (np_dot 2 (\<lambda>K L. real (K * L) + 1) (\<lambda>K L. if K = L then 1 else 1 / 2))
                 (\<lambda>K L. real (K + L))))
   \<and> meq 2 2 (gen_K 2 (\<lambda>K L M N. real ((K + L) * (M + N)))
              (np_dot 2 (np_dot 2 (\<lambda>K L. real (K + L)) (\<lambda>K L. if K = L then 1 else 1 / 2))
                 (\<lambda>K L. real (K * L) + 1)))
           (tr (gen_K 2 (\<lambda>K L M N. real ((K + L) * (M + N)))
              (np_dot 2 (np_dot 2 (\<lambda>K L. real (K * L) + 1) (\<lambda>K L. if K = L then 1 else 1 / 2))
                 (\<lambda>K L. real (K + L)))))"
  by (rule JK_symmetry) (simp_all add: eri_sym_def sym_mat_def add.commute mult.commute)

subsection \<open>Exchange-dispersion\<close>

lemma sum_lessThan_2: "(\<Sum>i<2. f i) = f 0 + (f (Suc 0) :: real)"
  by (simp add: numeral_2_eq_2)

text \<open>
  C1 (as stated, refuted). Two basis functions, one orbital in each space, every
  two-electron integral equal to \<open>1\<close>, the unsymmetric overlap \<open>S\<^sub>0\<^sub>0 = S\<^sub>0\<^sub>1 = S\<^sub>1\<^sub>1 = 1\<close>,
  \<open>S\<^sub>1\<^sub>0 = 0\<close>, \<open>C\<^sub>i = C\<^sub>r = e\<^sub>0\<close>, \<open>C\<^sub>j = C\<^sub>s = e\<^sub>1\<close>, amplitude \<open>1\<close>, and \<open>F\<^sub>A\<close>, \<open>F\<^sub>B\<close>,
  \<open>\<omega>\<^sub>A\<close>, \<open>\<omega>\<^sub>B\<close> zero. The only nonzero entry of the back-transformed amplitude is at
  \<open>K = L = 0\<close>, \<open>M = N = 1\<close>. The code adds \<open>- 2 S\<^sub>0\<^sub>1 Kij\<^sub>0\<^sub>1 = - 2\<close> with
  \<^verbatim>\<open>Kij\<close> \<open>= K[P\<^sub>A S P\<^sub>B]\<close>, where the documented term \<open>- 2 S\<^sub>K\<^sub>N K[P\<^sub>B S P\<^sub>A]\<^sub>M\<^sub>L\<close> is zero
  because \<open>P\<^sub>B S P\<^sub>A = 0\<close>: the code gives \<open>- 6\<close>, the documented expression \<open>- 4\<close>.
\<close>

theorem ExchDisp20_unsymmetric_counterexample:
  "ExchDisp20 2 (\<lambda>K L M N. 1) (\<lambda>K L. if K = 1 \<and> L = 0 then 0 else 1)
         (np_dot 1 (\<lambda>K a. if K = 0 then 1 else 0) (tr (\<lambda>K a. if K = 0 then 1 else 0)))
         (np_dot 1 (\<lambda>K b. if K = 1 then 1 else 0) (tr (\<lambda>K b. if K = 1 then 1 else 0)))
         (\<lambda>K L. 0) (\<lambda>K L. 0) (\<lambda>K L. 0) (\<lambda>K L. 0)
         (snd (compute_sapt_JK 2 1 1 (\<lambda>K L M N. 1)
                 (\<lambda>K a. if K = 0 then 1 else 0) (\<lambda>K b. if K = 1 then 1 else 0)
                 (Some (chain_dot (tr (\<lambda>K a. if K = 0 then 1 else 0))
                    [(2, \<lambda>K L. if K = 1 \<and> L = 0 then 0 else 1),
                     (2, \<lambda>K b. if K = 1 then 1 else 0)]))))
         (t_lnkm 1 1 1 1 (\<lambda>K a. if K = 0 then 1 else 0) (\<lambda>K b. if K = 1 then 1 else 0)
            (\<lambda>K r. if K = 0 then 1 else 0) (\<lambda>K s. if K = 1 then 1 else 0) (\<lambda>r s a b. 1))
     = - 6
   \<and> ExchDisp20_spec 2 (\<lambda>K L M N. 1) (\<lambda>K L. if K = 1 \<and> L = 0 then 0 else 1)
         (np_dot 1 (\<lambda>K a. if K = 0 then 1 else 0) (tr (\<lambda>K a. if K = 0 then 1 else 0)))
         (np_dot 1 (\<lambda>K b. if K = 1 then 1 else 0) (tr (\<lambda>K b. if K = 1 then 1 else 0)))
         (\<lambda>K L. 0) (\<lambda>K L. 0) (\<lambda>K L. 0) (\<lambda>K L. 0)
         (gen_K 2 (\<lambda>K L M N. 1)
            (np_dot 2
               (np_dot 2
                  (np_dot 1 (\<lambda>K b. if K = 1 then 1 else 0) (tr (\<lambda>K b. if K = 1 then 1 else 0)))
                  (\<lambda>K L. if K = 1 \<and> L = 0 then 0 else 1))
               (np_dot 1 (\<lambda>K a. if K = 0 then 1 else 0) (tr (\<lambda>K a. if K = 0 then 1 else 0)))))
         (t_LNKM_spec 1 1 1 1 (\<lambda>K a. if K = 0 then 1 else 0) (\<lambda>K b. if K = 1 then 1 else 0)
            (\<lambda>K r. if K = 0 then 1 else 0) (\<lambda>K s. if K = 1 then 1 else 0) (\<lambda>r s a b. 1))
     = - 4
   \<and> ExchDisp20 2 (\<lambda>K L M N. 1) (\<lambda>K L. if K = 1 \<and> L = 0 then 0 else 1)
         (np_dot 1 (\<lambda>K a. if K = 0 then 1 else 0) (tr (\<lambda>K a. if K = 0 then 1 else 0)))
         (np_dot 1 (\<lambda>K b. if K = 1 then 1 else 0) (tr (\<lambda>K b. if K = 1 then 1 else 0)))
         (\<lambda>K L. 0) (\<lambda>K L. 0) (\<lambda>K L. 0) (\<lambda>K L. 0)
         (snd (compute_sapt_JK 2 1 1 (\<lambda>K L M N. 1)
                 (\<lambda>K a. if K = 0 then 1 else 0) (\<lambda>K b. if K = 1 then 1 else 0)
                 (Some (chain_dot (tr (\<lambda>K a. if K = 0 then 1 else 0))
                    [(2, \<lambda>K L. if K = 1 \<and> L = 0 then 0 else 1),
                     (2, \<lambda>K b. if K = 1 then 1 else 0)]))))
         (t_lnkm 1 1 1 1 (\<lambda>K a. if K = 0 then 1 else 0) (\<lambda>K b. if K = 1 then 1 else 0)
            (\<lambda>K r. if K = 0 then 1 else 0) (\<lambda>K s. if K = 1 then 1 else 0) (\<lambda>r s a b. 1))
     \<noteq> ExchDisp20_spec 2 (\<lambda>K L M N. 1) (\<lambda>K L. if K = 1 \<and> L = 0 then 0 else 1)
         (np_dot 1 (\<lambda>K a. if K = 0 then 1 else 0) (tr (\<lambda>K a. if K = 0 then 1 else 0)))
         (np_dot 1 (\<lambda>K b. if K = 1 then 1 else 0) (tr (\<lambda>K b. if K = 1 then 1 else 0)))
         (\<lambda>K L. 0) (\<lambda>K L. 0) (\<lambda>K L. 0) (\<lambda>K L. 0)
         (gen_K 2 (\<lambda>K L M N. 1)
            (np_dot 2
               (np_dot 2
                  (np_dot 1 (\<lambda>K b. if K = 1 then 1 else 0) (tr (\<lambda>K b. if K = 1 then 1 else 0)))
                  (\<lambda>K L. if K = 1 \<and> L = 0 then 0 else 1))
               (np_dot 1 (\<lambda>K a. if K = 0 then 1 else 0) (tr (\<lambda>K a. if K = 0 then 1 else 0)))))
         (t_LNKM_spec 1 1 1 1 (\<lambda>K a. if K = 0 then 1 else 0) (\<lambda>K b. if K = 1 then 1 else 0)
            (\<lambda>K r. if K = 0 then 1 else 0) (\<lambda>K s. if K = 1 then 1 else 0) (\<lambda>r s a b. 1))"
  by (simp add: ExchDisp20_closed t_lnkm_spec ExchDisp20_spec_def ExchDisp20_bracket_def
        t_LNKM_spec_def sum4_def compute_sapt_JK_def gen_K_def np_dot_def tr_def Let_def
        sum_lessThan_2)

text \<open>
  C1 (amended). When the two-electron tensor has the pair symmetries and the overlap is
  symmetric, with \<open>P\<^sub>A = C\<^sub>i C\<^sub>i\<^sup>T\<close>, \<open>P\<^sub>B = C\<^sub>j C\<^sub>j\<^sup>T\<close> and \<^verbatim>\<open>Kij\<close> built by the JK builder
  as in the notebook, the exchange-dispersion energy of the code equals the contraction
  of \<open>t\<^sub>L\<^sub>N\<^sub>K\<^sub>M = \<Sum> t\<^sub>r\<^sub>s\<^sub>a\<^sub>b C\<^sub>K\<^sub>a C\<^sub>M\<^sub>b C\<^sub>L\<^sub>r C\<^sub>N\<^sub>s\<close> with the documented bracket, every term
  with its coefficient and its permutation of \<open>K\<close>, \<open>L\<close>, \<open>M\<close>, \<open>N\<close>, for every amplitude
  \<open>t\<^sub>r\<^sub>s\<^sub>a\<^sub>b\<close> and all \<open>F\<^sub>A\<close>, \<open>F\<^sub>B\<close>, \<open>\<omega>\<^sub>A\<close>, \<open>\<omega>\<^sub>B\<close>.
\<close>

theorem ExchDisp20_documented_expression:
  assumes "eri_sym nbf I" "sym_mat nbf S"
  shows "ExchDisp20 nbf I S (np_dot na Ci (tr Ci)) (np_dot nb Cj (tr Cj)) F_A F_B w_A w_B
           (snd (compute_sapt_JK nbf na nb I Ci Cj (Some (chain_dot (tr Ci) [(nbf, S), (nbf, Cj)]))))
           (t_lnkm nr ns na nb Ci Cj Cr Cs t)
       = ExchDisp20_spec nbf I S (np_dot na Ci (tr Ci)) (np_dot nb Cj (tr Cj)) F_A F_B w_A w_B
           (gen_K nbf I (np_dot nbf (np_dot nbf (np_dot nb Cj (tr Cj)) S) (np_dot na Ci (tr Ci))))
           (t_LNKM_spec nr ns na nb Ci Cj Cr Cs t)"
proof -
  have "meq nbf nbf
          (gen_K nbf I (np_dot nbf (np_dot nbf (np_dot nb Cj (tr Cj)) S) (np_dot na Ci (tr Ci))))
          (tr (snd (compute_sapt_JK nbf na nb I Ci Cj (Some (chain_dot (tr Ci) [(nbf, S), (nbf, Cj)])))))"
    unfolding compute_sapt_JK_cross snd_conv
    by (rule gen_JK_swap(2)[OF assms(1) sym_mat_density sym_mat_density assms(2)])
  then show ?thesis
    unfolding t_lnkm_spec by (rule ExchDisp20_documented)
qed

theorem ExchDisp20_documented_expression_witness:
  "ExchDisp20 2 (\<lambda>K L M N. real ((K + L) * (M + N)) + 1) (\<lambda>K L. if K = L then 1 else 1 / 2)
         (np_dot 1 (\<lambda>K a. real K + 1) (tr (\<lambda>K a. real K + 1)))
         (np_dot 1 (\<lambda>K b. 2 - real K) (tr (\<lambda>K b. 2 - real K)))
         (\<lambda>K L. real K + 2 * real L) (\<lambda>K L. 1 - real L) (\<lambda>K L. real (K * L)) (\<lambda>K L. 3)
         (snd (compute_sapt_JK 2 1 1 (\<lambda>K L M N. real ((K + L) * (M + N)) + 1)
                 (\<lambda>K a. real K + 1) (\<lambda>K b. 2 - real K)
                 (Some (chain_dot (tr (\<lambda>K a. real K + 1))
                    [(2, \<lambda>K L. if K = L then 1 else 1 / 2), (2, \<lambda>K b. 2 - real K)]))))
         (t_lnkm 1 1 1 1 (\<lambda>K a. real K + 1) (\<lambda>K b. 2 - real K) (\<lambda>K r. 1 - real K) (\<lambda>K s. real K)
            (\<lambda>r s a b. 1 / 2))
    = 2747"
  apply (rule trans[OF ExchDisp20_documented_expression])
    apply (simp add: eri_sym_def add.commute mult.commute)
   apply (simp add: sym_mat_def)
  apply (simp add: ExchDisp20_spec_def ExchDisp20_bracket_def t_LNKM_spec_def gen_K_def
      np_dot_def tr_def Let_def sum_lessThan_2)
  done
text \<open>
  C8. Replacing \<open>t\<^sub>r\<^sub>s\<^sub>a\<^sub>b\<close> by \<open>c t\<^sub>r\<^sub>s\<^sub>a\<^sub>b\<close> multiplies the back-transformed amplitude, and
  with it the exchange-dispersion energy, by \<open>c\<close>.
\<close>

theorem ExchDisp20_linear:
  "t_lnkm nr ns na nb Ci Cj Cr Cs (\<lambda>r s a b. c * t r s a b)
     = (\<lambda>l n k m. c * t_lnkm nr ns na nb Ci Cj Cr Cs t l n k m)
   \<and> ExchDisp20 nbf I S P_i P_j h_A h_B w_A w_B Kij
       (t_lnkm nr ns na nb Ci Cj Cr Cs (\<lambda>r s a b. c * t r s a b))
     = c * ExchDisp20 nbf I S P_i P_j h_A h_B w_A w_B Kij (t_lnkm nr ns na nb Ci Cj Cr Cs t)"
proof -
  have t: "t_lnkm nr ns na nb Ci Cj Cr Cs (\<lambda>r s a b. c * t r s a b)
     = (\<lambda>l n k m. c * t_lnkm nr ns na nb Ci Cj Cr Cs t l n k m)"
    by (intro ext) (simp add: t_lnkm_def Let_def sum_distrib_left sum_distrib_right mult_ac)
  have "ExchDisp20 nbf I S P_i P_j h_A h_B w_A w_B Kij (\<lambda>l n k m. c * u l n k m)
      = c * ExchDisp20 nbf I S P_i P_j h_A h_B w_A w_B Kij u" for u
    unfolding ExchDisp20_closed by (simp add: mult.assoc sum4_cmul)
  with t show ?thesis by simp
qed

subsection \<open>Exchange-induction\<close>

text \<open>
  C9. The exchange-induction energies, and the SAPT0 total that contains their sum, do
  not depend on the exchange matrices \<^verbatim>\<open>Kjij\<close> and \<^verbatim>\<open>Kiji\<close> that the two additional calls
  of the JK builder return.
\<close>

theorem ExchInd20_K_unused:
  "ExchInd20_ab nbf na nr S Ci Cr P_i P_j h_A h_B w_A w_B Jij Kij Kjj CPHF_ra (Jjij, Kjij)
     = ExchInd20_ab nbf na nr S Ci Cr P_i P_j h_A h_B w_A w_B Jij Kij Kjj CPHF_ra (Jjij, Kjij')
   \<and> ExchInd20_ba nbf nb ns S Cj Cs P_i P_j h_A h_B w_A w_B Jij Kij Kii CPHF_sb (Jiji, Kiji)
     = ExchInd20_ba nbf nb ns S Cj Cs P_i P_j h_A h_B w_A w_B Jij Kij Kii CPHF_sb (Jiji, Kiji')
   \<and> sapt0 E_exch E_elst E_disp E_exchdisp E_ind
       (ExchInd20_ba nbf nb ns S Cj Cs P_i P_j h_A h_B w_A w_B Jij Kij Kii CPHF_sb (Jiji, Kiji)
        + ExchInd20_ab nbf na nr S Ci Cr P_i P_j h_A h_B w_A w_B Jij Kij Kjj CPHF_ra (Jjij, Kjij))
     = sapt0 E_exch E_elst E_disp E_exchdisp E_ind
       (ExchInd20_ba nbf nb ns S Cj Cs P_i P_j h_A h_B w_A w_B Jij Kij Kii CPHF_sb (Jiji, Kiji')
        + ExchInd20_ab nbf na nr S Ci Cr P_i P_j h_A h_B w_A w_B Jij Kij Kjj CPHF_ra (Jjij, Kjij'))"
  by (simp add: ExchInd20_ab_def ExchInd20_ba_def)

subsection \<open>Exchange of the monomer labels\<close>

lemma sum4_pairswap:
  fixes f :: "nat \<Rightarrow> nat \<Rightarrow> nat \<Rightarrow> nat \<Rightarrow> 'd::comm_monoid_add"
  shows "(\<Sum>K<n. \<Sum>L<n. \<Sum>M<n. \<Sum>N<n. f K L M N) = (\<Sum>K<n. \<Sum>L<n. \<Sum>M<n. \<Sum>N<n. f M N K L)"
proof -
  have "(\<Sum>K<n. \<Sum>L<n. \<Sum>M<n. \<Sum>N<n. f K L M N) = (\<Sum>K<n. \<Sum>M<n. \<Sum>L<n. \<Sum>N<n. f K L M N)"
    by (rule sum_swap23)
  also have "\<dots> = (\<Sum>M<n. \<Sum>K<n. \<Sum>L<n. \<Sum>N<n. f K L M N)"
    by (rule sum.swap)
  also have "\<dots> = (\<Sum>M<n. \<Sum>K<n. \<Sum>N<n. \<Sum>L<n. f K L M N)"
    by (rule sum_swap34)
  also have "\<dots> = (\<Sum>M<n. \<Sum>N<n. \<Sum>K<n. \<Sum>L<n. f K L M N)"
    by (rule sum_swap23)
  finally show ?thesis .
qed

lemma sum4_swap_both:
  fixes f :: "nat \<Rightarrow> nat \<Rightarrow> nat \<Rightarrow> nat \<Rightarrow> 'd::comm_monoid_add"
  shows "(\<Sum>s<ns. \<Sum>r<nr. \<Sum>b<nb. \<Sum>a<na. f r s a b) = (\<Sum>r<nr. \<Sum>s<ns. \<Sum>a<na. \<Sum>b<nb. f r s a b)"
proof -
  have "(\<Sum>s<ns. \<Sum>r<nr. \<Sum>b<nb. \<Sum>a<na. f r s a b) = (\<Sum>r<nr. \<Sum>s<ns. \<Sum>b<nb. \<Sum>a<na. f r s a b)"
    by (rule sum.swap)
  also have "\<dots> = (\<Sum>r<nr. \<Sum>s<ns. \<Sum>a<na. \<Sum>b<nb. f r s a b)"
    by (rule sum_swap34)
  finally show ?thesis .
qed

lemma frobenius_tr: "frobenius n (tr A) (tr B) = frobenius n A B"
  unfolding frobenius_def tr_def by (rule sum.swap)

lemma frobenius_gen_J_swap:
  assumes "eri_sym n I"
  shows "frobenius n X (gen_J n I Y) = frobenius n Y (gen_J n I X)"
proof -
  have "frobenius n Y (gen_J n I X) = (\<Sum>K<n. \<Sum>L<n. \<Sum>M<n. \<Sum>N<n. Y K L * I K L M N * X M N)"
    by (simp add: frobenius_def gen_J_def sum_distrib_left mult.assoc)
  also have "\<dots> = (\<Sum>K<n. \<Sum>L<n. \<Sum>M<n. \<Sum>N<n. Y M N * I M N K L * X K L)"
    by (rule sum4_pairswap)
  also have "\<dots> = (\<Sum>K<n. \<Sum>L<n. \<Sum>M<n. \<Sum>N<n. X K L * I K L M N * Y M N)"
    using assms by (intro sum.cong refl) (simp add: eri_sym_def)
  also have "\<dots> = frobenius n X (gen_J n I Y)"
    by (simp add: frobenius_def gen_J_def sum_distrib_left mult.assoc)
  finally show ?thesis by simp
qed

lemma frobenius_gen_K_swap:
  assumes "eri_sym n I"
  shows "frobenius n X (gen_K n I Y) = frobenius n Y (gen_K n I X)"
proof -
  have perm: "I M K L N = I K M N L" if "K < n" "L < n" "M < n" "N < n" for K L M N
  proof -
    have "I M K L N = I K M L N" using assms that by (simp add: eri_sym_def)
    also have "\<dots> = I K M N L" using assms that by (simp add: eri_sym_def)
    finally show ?thesis .
  qed
  have "frobenius n Y (gen_K n I X) = (\<Sum>K<n. \<Sum>L<n. \<Sum>M<n. \<Sum>N<n. Y K L * I K M N L * X M N)"
    by (simp add: frobenius_def gen_K_def sum_distrib_left mult.assoc)
  also have "\<dots> = (\<Sum>K<n. \<Sum>L<n. \<Sum>M<n. \<Sum>N<n. Y M N * I M K L N * X K L)"
    by (rule sum4_pairswap)
  also have "\<dots> = (\<Sum>K<n. \<Sum>L<n. \<Sum>M<n. \<Sum>N<n. X K L * I K M N L * Y M N)"
    by (intro sum.cong refl) (simp add: perm)
  also have "\<dots> = frobenius n X (gen_K n I Y)"
    by (simp add: frobenius_def gen_K_def sum_distrib_left mult.assoc)
  finally show ?thesis by simp
qed

lemma gen_J_sym:
  assumes "eri_sym n I"
  shows "sym_mat n (gen_J n I X)"
  unfolding sym_mat_def gen_J_def
  using assms by (intro allI impI sum.cong refl) (simp add: eri_sym_def)

lemma gen_K_sym:
  assumes "eri_sym n I" "sym_mat n X"
  shows "sym_mat n (gen_K n I X)"
proof -
  have "meq n n (tr X) X" using assms(2) by (simp add: sym_mat_meq)
  then have "gen_K n I (tr X) = gen_K n I X" by (rule gen_K_meq)
  with gen_K_tr[OF assms(1), of X] have "meq n n (gen_K n I X) (tr (gen_K n I X))" by simp
  then show ?thesis unfolding sym_mat_meq by (rule meq_sym)
qed

lemma sym_mat_madd: "sym_mat n A \<Longrightarrow> sym_mat n B \<Longrightarrow> sym_mat n (madd A B)"
  by (simp add: sym_mat_def madd_def)

lemma sym_mat_msub: "sym_mat n A \<Longrightarrow> sym_mat n B \<Longrightarrow> sym_mat n (msub A B)"
  by (simp add: sym_mat_def msub_def)

lemma sym_mat_mscale: "sym_mat n A \<Longrightarrow> sym_mat n (mscale c A)"
  by (simp add: sym_mat_def mscale_def)

lemma compute_sapt_JK_plain:
  "compute_sapt_JK nbf n1 n2 I A B None =
     (gen_J nbf I (np_dot n1 A (tr B)), gen_K nbf I (np_dot n1 A (tr B)))"
  by (simp add: compute_sapt_JK_def Let_def)

lemma Elst10_swap:
  assumes "eri_sym nbf I"
  shows "Elst10 nbf P_j P_i (gen_J nbf I P_i) V_B V_A rep
       = Elst10 nbf P_i P_j (gen_J nbf I P_j) V_A V_B rep"
  unfolding Elst10_def Let_def np_vdot_frobenius
  by (simp add: frobenius_gen_J_swap[OF assms, of P_j P_i])

lemma Exch100_swap:
  assumes I: "eri_sym nbf I" and S: "sym_mat nbf S"
    and P: "sym_mat nbf P_i" "sym_mat nbf P_j"
    and h: "sym_mat nbf h_A" "sym_mat nbf h_B"
  shows "Exch100 nbf P_j P_i S (gen_K nbf I P_j)
           (gen_K nbf I (np_dot nbf (np_dot nbf P_j S) P_i)) h_B h_A w_B w_A
       = Exch100 nbf P_i P_j S (gen_K nbf I P_i)
           (gen_K nbf I (np_dot nbf (np_dot nbf P_i S) P_j)) h_A h_B w_A w_B"
proof -
  let ?X = "np_dot nbf (np_dot nbf P_i S) P_j"
  let ?Y = "np_dot nbf (np_dot nbf P_j S) P_i"
  have YX: "meq nbf nbf ?Y (tr ?X)"
    using P S by (intro tr_triple)
  have t1: "frobenius nbf P_i (gen_K nbf I P_j) = frobenius nbf P_j (gen_K nbf I P_i)"
    by (rule frobenius_gen_K_swap[OF I])
  have "meq nbf nbf (madd h_B h_A) (tr (madd h_A h_B))"
    using h by (simp add: meq_def sym_mat_def madd_def tr_def)
  then have "frobenius nbf ?Y (madd h_B h_A) = frobenius nbf (tr ?X) (tr (madd h_A h_B))"
    using YX by (intro frobenius_meq)
  then have t2: "frobenius nbf ?Y (madd h_B h_A) = frobenius nbf ?X (madd h_A h_B)"
    by (simp add: frobenius_tr)
  have "frobenius nbf ?Y (gen_K nbf I ?Y) = frobenius nbf (tr ?X) (tr (gen_K nbf I ?X))"
    using YX gen_JK_swap(2)[OF I P S] by (intro frobenius_meq)
  then have t5: "frobenius nbf ?Y (gen_K nbf I ?Y) = frobenius nbf ?X (gen_K nbf I ?X)"
    by (simp add: frobenius_tr)
  show ?thesis
    unfolding Exch100_def Let_def np_vdot_frobenius chain_dot_sq2 chain_dot_sq4
    by (simp add: t1 t2 t5)
qed

lemma Disp200_swap:
  "Disp200 ns nr nb na (e_rsab eps_s eps_r eps_b eps_a)
      (lift4 (\<lambda>r s a b. v_rsab s r b a)) (lift4 (\<lambda>a b r s. v_abrs b a s r))
   = Disp200 nr ns na nb (e_rsab eps_r eps_s eps_a eps_b) (lift4 v_rsab) (lift4 v_abrs)"
proof -
  have e: "e_rsab eps_s eps_r eps_b eps_a s r b a = e_rsab eps_r eps_s eps_a eps_b r s a b" for r s a b
    by (simp add: e_rsab_def algebra_simps)
  have "(\<Sum>s<ns. \<Sum>r<nr. \<Sum>b<nb. \<Sum>a<na.
           e_rsab eps_s eps_r eps_b eps_a s r b a * lift4 (\<lambda>r s a b. v_rsab s r b a) s r b a
             * lift4 (\<lambda>a b r s. v_abrs b a s r) b a s r)
      = (\<Sum>s<ns. \<Sum>r<nr. \<Sum>b<nb. \<Sum>a<na.
           e_rsab eps_r eps_s eps_a eps_b r s a b * lift4 v_rsab r s a b * lift4 v_abrs a b r s)"
    by (simp add: e lift4_def)
  also have "\<dots> = (\<Sum>r<nr. \<Sum>s<ns. \<Sum>a<na. \<Sum>b<nb.
           e_rsab eps_r eps_s eps_a eps_b r s a b * lift4 v_rsab r s a b * lift4 v_abrs a b r s)"
    by (rule sum4_swap_both)
  finally show ?thesis
    by (simp add: Disp200_def)
qed

lemma ExchInd20_mirror:
  assumes J: "meq nbf nbf J' J" and K: "meq nbf nbf K' (tr K)"
  shows "ExchInd20_ab nbf no nv S Co Cv X Y hX hY wX wY J' K' KYY C jk
       = ExchInd20_ba nbf no nv S Co Cv Y X hY hX wY wX J K KYY C jk"
proof -
  let ?C = "np_dot nv (np_dot no Co (tr C)) (tr Cv)"
  have K2: "meq nbf nbf (tr K') K"
    using meq_tr[OF K] by simp
  have a: "frobenius nbf ?C J' = frobenius nbf ?C J"
    using J by (intro frobenius_meq) simp_all
  have b: "frobenius nbf ?C K' = frobenius nbf ?C (tr K)"
    using K by (intro frobenius_meq) simp_all
  have c: "frobenius nbf ?C (np_dot nbf (np_dot nbf S Y) (tr K'))
         = frobenius nbf ?C (np_dot nbf (np_dot nbf S Y) K)"
    using K2 by (intro frobenius_meq np_dot_meq) simp_all
  have d: "frobenius nbf ?C (np_dot nbf (np_dot nbf K' Y) S)
         = frobenius nbf ?C (np_dot nbf (np_dot nbf (tr K) Y) S)"
    using K by (intro frobenius_meq np_dot_meq) simp_all
  show ?thesis
    unfolding ExchInd20_ab_def ExchInd20_ba_def Let_def np_vdot_frobenius
      chain_dot_sq2 chain_dot_sq4
    by (simp add: a b c d split: prod.splits)
qed

lemma swap_monomers_sel [simp]:
  "sapt_nbf (swap_monomers d) = sapt_nbf d"
  "sapt_ndocc_A (swap_monomers d) = sapt_ndocc_B d"
  "sapt_ndocc_B (swap_monomers d) = sapt_ndocc_A d"
  "sapt_nvirt_A (swap_monomers d) = sapt_nvirt_B d"
  "sapt_nvirt_B (swap_monomers d) = sapt_nvirt_A d"
  "sapt_orbitals_a (swap_monomers d) = sapt_orbitals_b d"
  "sapt_orbitals_b (swap_monomers d) = sapt_orbitals_a d"
  "sapt_orbitals_r (swap_monomers d) = sapt_orbitals_s d"
  "sapt_orbitals_s (swap_monomers d) = sapt_orbitals_r d"
  "sapt_S (swap_monomers d) = sapt_S d"
  "sapt_V_A (swap_monomers d) = sapt_V_B d"
  "sapt_V_B (swap_monomers d) = sapt_V_A d"
  "sapt_ao_eri (swap_monomers d) = sapt_ao_eri d"
  "sapt_nuc_rep (swap_monomers d) = sapt_nuc_rep d"
  "sapt_eps_a (swap_monomers d) = sapt_eps_b d"
  "sapt_eps_b (swap_monomers d) = sapt_eps_a d"
  "sapt_eps_r (swap_monomers d) = sapt_eps_s d"
  "sapt_eps_s (swap_monomers d) = sapt_eps_r d"
  "sapt_v_abrs (swap_monomers d) = (\<lambda>a b r s. sapt_v_abrs d b a s r)"
  "sapt_v_rsab (swap_monomers d) = (\<lambda>r s a b. sapt_v_rsab d s r b a)"
  "sapt_chf_B (swap_monomers d) = sapt_chf_A d"
  "sapt_chf_A (swap_monomers d) = sapt_chf_B d"
  by (simp_all add: swap_monomers_def)

lemma swap_monomers_intermediates [simp]:
  "nb_Pi (swap_monomers d) = nb_Pj d"
  "nb_Pj (swap_monomers d) = nb_Pi d"
  "nb_JKii (swap_monomers d) = nb_JKjj d"
  "nb_JKjj (swap_monomers d) = nb_JKii d"
  "nb_w_A (swap_monomers d) = nb_w_B d"
  "nb_w_B (swap_monomers d) = nb_w_A d"
  "nb_h_A (swap_monomers d) = nb_h_B d"
  "nb_h_B (swap_monomers d) = nb_h_A d"
  by (simp_all add: nb_Pi_def nb_Pj_def nb_JKii_def nb_JKjj_def nb_w_A_def nb_w_B_def
        nb_h_A_def nb_h_B_def)

lemma nb_JK_plain:
  "nb_JKii d = (gen_J (sapt_nbf d) (sapt_ao_eri d) (nb_Pi d), gen_K (sapt_nbf d) (sapt_ao_eri d) (nb_Pi d))"
  "nb_JKjj d = (gen_J (sapt_nbf d) (sapt_ao_eri d) (nb_Pj d), gen_K (sapt_nbf d) (sapt_ao_eri d) (nb_Pj d))"
  by (simp_all add: nb_JKii_def nb_JKjj_def nb_Pi_def nb_Pj_def compute_sapt_JK_plain)

lemma nb_JKij_cross:
  "nb_JKij d =
     (gen_J (sapt_nbf d) (sapt_ao_eri d) (np_dot (sapt_nbf d) (np_dot (sapt_nbf d) (nb_Pi d) (sapt_S d)) (nb_Pj d)),
      gen_K (sapt_nbf d) (sapt_ao_eri d) (np_dot (sapt_nbf d) (np_dot (sapt_nbf d) (nb_Pi d) (sapt_S d)) (nb_Pj d)))"
  by (simp only: nb_JKij_def nb_Pi_def nb_Pj_def compute_sapt_JK_cross)

lemma nb_sym:
  assumes "valid_input d"
  shows "sym_mat (sapt_nbf d) (nb_Pi d)" "sym_mat (sapt_nbf d) (nb_Pj d)"
    "sym_mat (sapt_nbf d) (nb_h_A d)" "sym_mat (sapt_nbf d) (nb_h_B d)"
proof -
  show Pi: "sym_mat (sapt_nbf d) (nb_Pi d)" and Pj: "sym_mat (sapt_nbf d) (nb_Pj d)"
    by (simp_all add: nb_Pi_def nb_Pj_def sym_mat_density)
  have I: "eri_sym (sapt_nbf d) (sapt_ao_eri d)"
    and V: "sym_mat (sapt_nbf d) (sapt_V_A d)" "sym_mat (sapt_nbf d) (sapt_V_B d)"
    using assms by (simp_all add: valid_input_def)
  show "sym_mat (sapt_nbf d) (nb_h_A d)"
    unfolding nb_h_A_def nb_JK_plain fst_conv snd_conv
    by (intro sym_mat_msub sym_mat_madd sym_mat_mscale V gen_J_sym[OF I] gen_K_sym[OF I Pi])
  show "sym_mat (sapt_nbf d) (nb_h_B d)"
    unfolding nb_h_B_def nb_JK_plain fst_conv snd_conv
    by (intro sym_mat_msub sym_mat_madd sym_mat_mscale V gen_J_sym[OF I] gen_K_sym[OF I Pj])
qed

text \<open>
  C7. On a valid input (two-electron tensor with the pair symmetries, symmetric overlap
  and nuclear-attraction matrices), exchanging every monomer-A input with the
  corresponding monomer-B input leaves the electrostatic, dispersion and first-order
  exchange energies unchanged, and exchanges the two directional induction energies and
  the two directional exchange-induction energies.
\<close>

theorem monomer_swap:
  assumes "valid_input d"
  shows "nb_Elst10 (swap_monomers d) = nb_Elst10 d
       \<and> nb_Disp200 (swap_monomers d) = nb_Disp200 d
       \<and> nb_Exch100 (swap_monomers d) = nb_Exch100 d
       \<and> nb_Ind20_ba (swap_monomers d) = nb_Ind20_ab d
       \<and> nb_Ind20_ab (swap_monomers d) = nb_Ind20_ba d
       \<and> nb_ExchInd20_ab (swap_monomers d) = nb_ExchInd20_ba d
       \<and> nb_ExchInd20_ba (swap_monomers d) = nb_ExchInd20_ab d"
proof -
  let ?n = "sapt_nbf d"
  have I: "eri_sym ?n (sapt_ao_eri d)" and S: "sym_mat ?n (sapt_S d)"
    using assms by (simp_all add: valid_input_def)
  note sym = nb_sym[OF assms]
  have J: "meq ?n ?n (fst (nb_JKij (swap_monomers d))) (fst (nb_JKij d))"
    and K: "meq ?n ?n (snd (nb_JKij (swap_monomers d))) (tr (snd (nb_JKij d)))"
    by (simp_all add: nb_JKij_cross gen_JK_swap[OF I sym(1) sym(2) S])
  have K': "meq ?n ?n (snd (nb_JKij d)) (tr (snd (nb_JKij (swap_monomers d))))"
    by (rule meq_sym) (use meq_tr[OF K] in simp)
  have elst: "nb_Elst10 (swap_monomers d) = nb_Elst10 d"
    unfolding nb_Elst10_def by (simp add: nb_JK_plain Elst10_swap[OF I])
  have disp: "nb_Disp200 (swap_monomers d) = nb_Disp200 d"
    unfolding nb_Disp200_def Disp200_cell_def Let_def swap_monomers_sel
    by (rule arg_cong[OF Disp200_swap])
  have exch: "nb_Exch100 (swap_monomers d) = nb_Exch100 d"
    unfolding nb_Exch100_def
    by (simp add: nb_JK_plain nb_JKij_cross Exch100_swap[OF I S sym])
  have ind: "nb_Ind20_ba (swap_monomers d) = nb_Ind20_ab d"
    "nb_Ind20_ab (swap_monomers d) = nb_Ind20_ba d"
    by (simp_all add: nb_Ind20_ba_def nb_Ind20_ab_def)
  have ab: "nb_ExchInd20_ab (swap_monomers d) = nb_ExchInd20_ba d"
    unfolding nb_ExchInd20_ab_def nb_ExchInd20_ba_def
    by (simp add: ExchInd20_mirror[OF J K])
  have ba: "nb_ExchInd20_ba (swap_monomers d) = nb_ExchInd20_ab d"
    unfolding nb_ExchInd20_ab_def nb_ExchInd20_ba_def
    by (simp add: ExchInd20_mirror[OF meq_sym[OF J] K'])
  from elst disp exch ind ab ba show ?thesis by simp
qed

theorem monomer_swap_witness:
  "nb_Elst10 (swap_monomers example_input) = nb_Elst10 example_input
   \<and> nb_Disp200 (swap_monomers example_input) = nb_Disp200 example_input
   \<and> nb_Exch100 (swap_monomers example_input) = nb_Exch100 example_input
   \<and> nb_Ind20_ba (swap_monomers example_input) = nb_Ind20_ab example_input
   \<and> nb_Ind20_ab (swap_monomers example_input) = nb_Ind20_ba example_input
   \<and> nb_ExchInd20_ab (swap_monomers example_input) = nb_ExchInd20_ba example_input
   \<and> nb_ExchInd20_ba (swap_monomers example_input) = nb_ExchInd20_ab example_input"
  by (rule monomer_swap)
     (simp add: valid_input_def example_input_def eri_sym_def sym_mat_def add.commute mult.commute)

end
